theory Spec2Isabelle
  imports Complex_Main "HOL-Library.Sublist"
begin

section \<open>OpsPilot incident-response core\<close>

text \<open>
  A shallow embedding of the orchestration core of OpsPilot: the CloudWatch anomaly
  analyser, the Bedrock tool-calling loop, and the agent's planner, safety gate,
  execution sequencer and incident pipeline.

  Conventions. A JavaScript \<open>number\<close> that carries a measurement is a \<open>real\<close>
  (exact arithmetic: rounding, \<open>NaN\<close> and the infinities of IEEE doubles are outside
  the model); a \<open>number\<close> that counts or orders is a \<open>nat\<close> or an \<open>int\<close>. A
  \<open>Date\<close> is a \<open>nat\<close> (milliseconds since the epoch). A rejected promise or a
  thrown exception is the \<open>Inl\<close> branch of a sum.
\<close>

subsection \<open>Telemetry: \<open>CloudWatchService.analyzeMetricAnomalies\<close>\<close>

record MetricData =
  metricName :: string
  namespace :: string
  dimensions :: "(string \<times> string) list"
  timestamps :: "nat list"
  "values" :: "real list"
  unit :: string

record anomaly =
  timestamp :: "nat option"
  "value" :: real
  zscore :: real

record anomaly_report =
  hasAnomaly :: bool
  anomalies :: "anomaly list"

text \<open>\<open>arr[i]\<close>: \<open>undefined\<close> (here \<open>None\<close>) when the index is out of range.\<close>

definition index_opt :: "'a list \<Rightarrow> nat \<Rightarrow> 'a option" where
  "index_opt xs i = (if i < length xs then Some (xs ! i) else None)"

definition analyzeMetricAnomalies :: "MetricData \<Rightarrow> real \<Rightarrow> anomaly_report" where
  "analyzeMetricAnomalies metricData threshold =
     (if length (values metricData) < 3 then \<lparr>hasAnomaly = False, anomalies = []\<rparr>
      else
        let mean = foldl (\<lambda>a b. a + b) 0 (values metricData) / real (length (values metricData));
            variance = foldl (\<lambda>sum val. sum + (val - mean) ^ 2) 0 (values metricData)
                         / real (length (values metricData));
            stdDev = sqrt variance;
            anoms = filter (\<lambda>item. zscore item > threshold)
                      (map (\<lambda>(v, index).
                              \<lparr>timestamp = index_opt (timestamps metricData) index,
                               value = v,
                               zscore = (if stdDev = 0 then 0 else \<bar>(v - mean) / stdDev\<bar>)\<rparr>)
                           (zip (values metricData) [0 ..< length (values metricData)]))
        in \<lparr>hasAnomaly = length anoms > 0, anomalies = anoms\<rparr>)"

subsection \<open>Values, errors and the data model (\<open>types/index.ts\<close>)\<close>

text \<open>
  A value of type \<open>any\<close> is a \<open>jsvalue\<close>; \<open>truthy\<close> is JavaScript's conversion to
  a boolean. A thrown value is an \<open>error\<close> carrying its message (what
  \<open>error instanceof Error ? error.message : String(error)\<close> reads).

  Field names are the source's. Where two types share a field name, or a name is taken in
  HOL, the field carries a suffix naming its type (\<open>id_inc\<close>, \<open>id_plan\<close>,
  \<open>id_act\<close>, ...). Fields of type \<open>Date\<close> that are only ever written with
  \<open>new Date()\<close> are left out, and so is \<open>rollbackPlan\<close>, which no code reads or
  writes. Console output is not modelled.
\<close>

datatype jsvalue =
  JUndefined | JNull | JBool bool | JNum real | JStr string
  | JArr "jsvalue list" | JObj "(string \<times> jsvalue) list"

fun truthy :: "jsvalue \<Rightarrow> bool" where
  "truthy JUndefined = False"
| "truthy JNull = False"
| "truthy (JBool b) = b"
| "truthy (JNum n) = (n \<noteq> 0)"
| "truthy (JStr s) = (s \<noteq> [])"
| "truthy (JArr xs) = True"
| "truthy (JObj kvs) = True"

datatype error = Error string

fun message :: "error \<Rightarrow> string" where
  "message (Error m) = m"

datatype role = user | assistant

record ToolUse =
  toolUseId :: string
  name :: string
  input :: jsvalue

datatype tool_status = status_success | status_error

record ToolResult =
  toolUseId_res :: string
  content_res :: jsvalue
  status_res :: "tool_status option"

datatype message_content = Text string | ToolUses "ToolUse list" | ToolResults "ToolResult list"

record Message =
  role :: role
  content :: message_content

datatype ToolChoice = choice_auto | choice_any | choice_tool string

record ToolDefinition =
  name_spec :: string
  description_spec :: string
  inputSchema :: jsvalue

record ToolConfiguration =
  tools :: "ToolDefinition list"
  toolChoice :: "ToolChoice option"

record BedrockRequest =
  modelId :: string
  messages :: "Message list"
  temperature :: "real option"
  maxTokens :: "nat option"
  toolConfig :: "ToolConfiguration option"

datatype severity = critical | high | medium | low

datatype resource_type = rt_lambda | rt_ecs | rt_ec2 | rt_rds

datatype incident_status = status_open | investigating | remediating | resolved | failed

record Incident =
  id_inc :: string
  severity :: severity
  resourceArn :: string
  resourceType :: resource_type
  description_inc :: string
  metrics_inc :: "(string \<times> real) list option"
  logs_inc :: "string list option"
  status_inc :: incident_status

record DiagnosisResult =
  rootCause :: string
  confidence :: real
  affectedComponents :: "string list"
  relatedMetrics :: "string list"
  reasoning :: string

datatype action_type = update_config | restart_service | scale_resources | rollback | custom

record RemediationAction =
  id_act :: string
  type_act :: action_type
  description_act :: string
  parameters :: "(string \<times> jsvalue) list"
  order :: int

datatype check_type = rate_limit | resource_limit | dependency_check | rollback_available

record SafetyCheck =
  type_chk :: check_type
  description_chk :: string
  passed :: bool
  details_chk :: "string option"

record RemediationPlan =
  id_plan :: string
  incidentId_plan :: string
  actions :: "RemediationAction list"
  estimatedImpact :: string
  safetyChecks :: "SafetyCheck list"
  approvalRequired :: bool

subsection \<open>The AWS SDK's shapes\<close>

text \<open>
  What the SDK clients take and return, as far as the code reads or writes it. An optional
  member is an \<open>option\<close>.
\<close>

record ToolUseBlock =
  toolUseId_blk :: "string option"
  name_blk :: "string option"
  input_blk :: jsvalue

record ToolResultBlock =
  toolUseId_trb :: string
  json_trb :: jsvalue
  status_trb :: tool_status

record ContentBlock =
  "text" :: "string option"
  toolUse :: "ToolUseBlock option"
  toolResult :: "ToolResultBlock option"

record BedrockMessage =
  role_sdk :: role
  content_sdk :: "ContentBlock list option"

record InferenceConfig =
  temperature_cfg :: real
  maxTokens_cfg :: nat

datatype SdkToolChoice = auto_object | given_choice ToolChoice

record SdkToolConfig =
  tools_sdk :: "ToolDefinition list"
  toolChoice_sdk :: SdkToolChoice

record ConverseCommandInput =
  modelId_in :: string
  messages_in :: "BedrockMessage list"
  inferenceConfig :: InferenceConfig
  toolConfig_in :: "SdkToolConfig option"

record ConverseOutput =
  message_out :: "BedrockMessage option"

record ConverseCommandOutput =
  "output" :: "ConverseOutput option"

record EnvironmentResponse =
  Variables :: "(string \<times> string) list option"

record FunctionConfiguration =
  Timeout :: "nat option"
  MemorySize :: "nat option"
  Environment :: "EnvironmentResponse option"

datatype invocation_type = RequestResponse | Event | DryRun

record InvokeCommandOutput =
  StatusCode :: "nat option"
  Payload :: "(error + jsvalue) option"
  ExecutedVersion :: "string option"
  FunctionError :: "string option"

subsection \<open>Results and audit entries\<close>

datatype action_output = config_output FunctionConfiguration | message_output string

record ExecutionResult =
  actionId :: string
  success :: bool
  output_res :: "action_output option"
  error_res :: "string option"

record VerificationCheck =
  name_vc :: string
  passed_vc :: bool
  details_vc :: string

record VerificationResult =
  success_ver :: bool
  checks :: "VerificationCheck list"
  metricsImproved :: bool

datatype actor = system | user_actor

datatype audit_result = audit_success | audit_failure

datatype status_details = final_details string nat bool

datatype audit_details =
  incident_created_details severity string
  | status_updated_details incident_status "status_details option"
  | plan_created_details string nat bool
  | diagnosis_details string real
  | action_details action_type "action_output option" "string option"

record AuditEntry =
  id_aud :: string
  incidentId_aud :: string
  action :: string
  actor :: actor
  details_aud :: audit_details
  result :: audit_result

subsection \<open>The outside world\<close>

text \<open>
  Everything the core does to its collaborators is a command sent through an SDK client, or
  a call of the telemetry source (\<open>getMetrics\<close>, \<open>getLambdaMetrics\<close> and
  \<open>queryLogs\<close> of \<open>CloudWatchService\<close>, each taken at the method as one call and
  one answer). The \<open>world\<close> is the list of commands sent so
  far, oldest first, with the number of identifiers drawn from \<open>uuidv4\<close>. What a
  collaborator answers is given by the \<open>env\<close>: each answer may depend on everything sent
  before. \<open>env\<close> also holds the constructor arguments of the services and the host
  functions that render a value as text. The start and end of a time window, which the
  code reads off the clock, are left out of the commands.
\<close>

datatype dynamo_item =
  incident_item Incident | plan_item RemediationPlan | audit_item AuditEntry

datatype command =
  ConverseCommand ConverseCommandInput
  | GetFunctionConfigurationCommand jsvalue
  | UpdateFunctionConfigurationCommand jsvalue jsvalue jsvalue "(string \<times> string) list option"
  | InvokeCommand jsvalue invocation_type jsvalue
  | GetMetricData jsvalue jsvalue jsvalue
  | GetLambdaMetrics string
  | FilterLogEvents jsvalue jsvalue
  | PutCommand string dynamo_item
  | UpdateCommand string string incident_status

record world =
  sent :: "command list"
  uuids :: nat

datatype log_level = ERROR | WARN | INFO | DEBUG

record LogEntry =
  timestamp_log :: nat
  message_log :: string
  level :: log_level
  requestId :: "string option"

record env =
  defaultModelId :: string
  tableName :: string
  uuid :: "nat \<Rightarrow> string"
  isoNow :: "command list \<Rightarrow> string"
  stringifyMetrics :: "(string \<times> MetricData) list \<Rightarrow> string"
  stringifyConfig :: "FunctionConfiguration option \<Rightarrow> string"
  numberToString :: "real \<Rightarrow> string"
  bedrockSend :: "command list \<Rightarrow> ConverseCommandInput \<Rightarrow> error + ConverseCommandOutput"
  lambdaGetConfiguration :: "command list \<Rightarrow> jsvalue \<Rightarrow> error + FunctionConfiguration"
  lambdaUpdateConfiguration ::
    "command list \<Rightarrow> jsvalue \<Rightarrow> jsvalue \<Rightarrow> jsvalue \<Rightarrow> (string \<times> string) list option
       \<Rightarrow> error + FunctionConfiguration"
  lambdaInvoke :: "command list \<Rightarrow> jsvalue \<Rightarrow> invocation_type \<Rightarrow> jsvalue \<Rightarrow> error + InvokeCommandOutput"
  cloudwatchMetrics :: "command list \<Rightarrow> jsvalue \<Rightarrow> jsvalue \<Rightarrow> jsvalue \<Rightarrow> error + MetricData"
  cloudwatchLambdaMetrics :: "command list \<Rightarrow> string \<Rightarrow> error + (string \<times> MetricData) list"
  cloudwatchQueryLogs :: "command list \<Rightarrow> jsvalue \<Rightarrow> jsvalue \<Rightarrow> error + LogEntry list"
  dynamoSend :: "command list \<Rightarrow> command \<Rightarrow> error option"

definition send :: "command \<Rightarrow> world \<Rightarrow> world" where
  "send c w = w\<lparr>sent := sent w @ [c]\<rparr>"

definition uuidv4 :: "env \<Rightarrow> world \<Rightarrow> string \<times> world" where
  "uuidv4 e w = (uuid e (uuids w), w\<lparr>uuids := uuids w + 1\<rparr>)"

subsection \<open>\<open>BedrockService\<close>\<close>

definition formatMessages :: "Message list \<Rightarrow> BedrockMessage list" where
  "formatMessages msgs =
     map (\<lambda>msg.
            \<lparr>role_sdk = role msg,
             content_sdk = Some
               (case content msg of
                  Text str \<Rightarrow> [\<lparr>text = Some str, toolUse = None, toolResult = None\<rparr>]
                | ToolUses items \<Rightarrow>
                    map (\<lambda>item.
                           \<lparr>text = None,
                            toolUse = Some \<lparr>toolUseId_blk = Some (toolUseId item),
                                            name_blk = Some (name item),
                                            input_blk = input item\<rparr>,
                            toolResult = None\<rparr>) items
                | ToolResults items \<Rightarrow>
                    map (\<lambda>item.
                           \<lparr>text = None, toolUse = None,
                            toolResult = Some \<lparr>toolUseId_trb = toolUseId_res item,
                                               json_trb = content_res item,
                                               status_trb = (case status_res item of
                                                               None \<Rightarrow> status_success
                                                             | Some st \<Rightarrow> st)\<rparr>\<rparr>) items)\<rparr>)
         msgs"

definition formatToolConfig :: "ToolConfiguration \<Rightarrow> SdkToolConfig" where
  "formatToolConfig tc =
     \<lparr>tools_sdk = map (\<lambda>tool. \<lparr>name_spec = name_spec tool,
                                 description_spec = description_spec tool,
                                 inputSchema = inputSchema tool\<rparr>) (tools tc),
      toolChoice_sdk = (case toolChoice tc of None \<Rightarrow> auto_object | Some c \<Rightarrow> given_choice c)\<rparr>"

text \<open>\<open>converse\<close>: the command's input is built by \<open>converseInput\<close>, then sent.\<close>

definition converseInput :: "env \<Rightarrow> BedrockRequest \<Rightarrow> ConverseCommandInput" where
  "converseInput e request =
     \<lparr>modelId_in = (if modelId request \<noteq> [] then modelId request else defaultModelId e),
      messages_in = formatMessages (messages request),
      inferenceConfig =
        \<lparr>temperature_cfg = (case temperature request of None \<Rightarrow> 0.7 | Some t \<Rightarrow> t),
         maxTokens_cfg = (case maxTokens request of None \<Rightarrow> 4096 | Some n \<Rightarrow> n)\<rparr>,
      toolConfig_in = map_option formatToolConfig (toolConfig request)\<rparr>"

definition converse :: "env \<Rightarrow> BedrockRequest \<Rightarrow> world \<Rightarrow> (error + ConverseCommandOutput) \<times> world" where
  "converse e request w =
     (bedrockSend e (sent w) (converseInput e request),
      send (ConverseCommand (converseInput e request)) w)"

definition newline :: char where
  "newline = CHR 0x0A"

fun join :: "string \<Rightarrow> string list \<Rightarrow> string" where
  "join sep [] = []"
| "join sep [x] = x"
| "join sep (x # y # ys) = x @ sep @ join sep (y # ys)"

definition has_text :: "ContentBlock \<Rightarrow> bool" where
  "has_text block = (case text block of None \<Rightarrow> False | Some t \<Rightarrow> t \<noteq> [])"

definition extractTextFromContent :: "ContentBlock list \<Rightarrow> string" where
  "extractTextFromContent blocks =
     join [newline]
       (map (\<lambda>block. case text block of None \<Rightarrow> [] | Some t \<Rightarrow> t) (filter has_text blocks))"

definition extractTextFromResponse :: "ConverseCommandOutput \<Rightarrow> string" where
  "extractTextFromResponse response =
     (case output response of
        None \<Rightarrow> []
      | Some out \<Rightarrow>
          (case message_out out of
             None \<Rightarrow> []
           | Some msg \<Rightarrow>
               (case content_sdk msg of
                  None \<Rightarrow> []
                | Some blocks \<Rightarrow> extractTextFromContent blocks)))"


definition bedrock_generateRemediationPlan ::
  "env \<Rightarrow> string \<Rightarrow> string \<Rightarrow> FunctionConfiguration option \<Rightarrow> world \<Rightarrow> (error + string) \<times> world" where
  "bedrock_generateRemediationPlan e diagnosis arn currentConfig w =
     (let prompt = join [newline]
            [''Based on the following diagnosis, generate a safe remediation plan:'',
             [],
             ''Diagnosis: '' @ diagnosis,
             ''Resource ARN: '' @ arn,
             ''Current Configuration:'',
             stringifyConfig e currentConfig,
             [],
             ''Generate a remediation plan that includes:'',
             ''1. Specific actions to take (in order)'',
             ''2. Safety guardrails and checks'',
             ''3. Rollback procedures'',
             ''4. Expected impact and risks'',
             ''5. Whether human approval is required'',
             [],
             ''Focus on safe, incremental changes that can be automatically executed.''];
          request = \<lparr>modelId = defaultModelId e,
                     messages = [\<lparr>role = user, content = Text prompt\<rparr>],
                     temperature = Some 0.2,
                     maxTokens = Some 2048,
                     toolConfig = None\<rparr>
      in case converse e request w of
           (Inl err, w1) \<Rightarrow> (Inl err, w1)
         | (Inr response, w1) \<Rightarrow> (Inr (extractTextFromResponse response), w1))"

text \<open>
  The tool-calling loop. \<open>maxIterations\<close> is a count, so a \<open>nat\<close>. The loop's variables
  are the conversation \<open>messages\<close>, the recorded \<open>toolCalls\<close> and \<open>iterations\<close>;
  \<open>agenticLoop\<close> is the \<open>while\<close> statement, returning them as they stand when the loop
  is left. (\<open>hasText\<close> is assigned and never read.)
\<close>

record ToolCall =
  tool :: string
  input_call :: jsvalue
  output_call :: jsvalue

record loop_state =
  messages_st :: "Message list"
  toolCalls_st :: "ToolCall list"
  iterations_st :: nat

record workflow_result =
  finalResponse :: string
  toolCalls :: "ToolCall list"
  iterations :: nat

definition collectToolUses :: "ContentBlock list \<Rightarrow> ToolUse list" where
  "collectToolUses blocks =
     concat (map (\<lambda>block. case toolUse block of
                             None \<Rightarrow> []
                           | Some tu \<Rightarrow>
                               [\<lparr>toolUseId = (case toolUseId_blk tu of None \<Rightarrow> [] | Some i \<Rightarrow> i),
                                 name = (case name_blk tu of None \<Rightarrow> [] | Some n \<Rightarrow> n),
                                 input = (if truthy (input_blk tu) then input_blk tu else JObj [])\<rparr>])
                 blocks)"

definition mockOutput :: "ToolUse \<Rightarrow> jsvalue" where
  "mockOutput tu = JObj [(''success'', JBool True), (''data'', JStr (''Executed '' @ name tu))]"

function agenticLoop ::
  "env \<Rightarrow> ToolConfiguration \<Rightarrow> nat \<Rightarrow> loop_state \<Rightarrow> world \<Rightarrow> (error + loop_state) \<times> world" where
  "agenticLoop e tls maxIterations st w =
     (if iterations_st st < maxIterations then
        (let st1 = st\<lparr>iterations_st := iterations_st st + 1\<rparr>;
             request = \<lparr>modelId = defaultModelId e,
                        messages = messages_st st1,
                        temperature = Some 0.5,
                        maxTokens = None,
                        toolConfig = Some tls\<rparr>
         in case converse e request w of
              (Inl err, w1) \<Rightarrow> (Inl err, w1)
            | (Inr response, w1) \<Rightarrow>
                (case output response of
                   None \<Rightarrow> (Inr st1, w1)
                 | Some out \<Rightarrow>
                     (case message_out out of
                        None \<Rightarrow> (Inr st1, w1)
                      | Some msg \<Rightarrow>
                          (case content_sdk msg of
                             None \<Rightarrow> (Inr st1, w1)
                           | Some blocks \<Rightarrow>
                               (let toolUses = collectToolUses blocks;
                                    st2 = st1\<lparr>messages_st := messages_st st1 @
                                            [\<lparr>role = assistant,
                                              content = (if length toolUses > 0 then ToolUses toolUses
                                                         else Text (extractTextFromContent blocks))\<rparr>]\<rparr>
                                in if length toolUses = 0 then (Inr st2, w1)
                                   else
                                     (let toolResults =
                                            map (\<lambda>tu. \<lparr>toolUseId_res = toolUseId tu,
                                                        content_res = mockOutput tu,
                                                        status_res = Some status_success\<rparr>) toolUses;
                                          st3 = st2\<lparr>toolCalls_st := toolCalls_st st2 @
                                                  map (\<lambda>tu. \<lparr>tool = name tu, input_call = input tu,
                                                              output_call = mockOutput tu\<rparr>) toolUses,
                                                messages_st := messages_st st2 @
                                                  [\<lparr>role = user, content = ToolResults toolResults\<rparr>]\<rparr>
                                      in agenticLoop e tls maxIterations st3 w1))))))
      else (Inr st, w))"
  by pat_completeness auto
termination
  by (relation "measure (\<lambda>(e, tls, maxIterations, st, w). maxIterations - iterations_st st)") auto

declare agenticLoop.simps [simp del]

text \<open>\<open>String(content)\<close>: a string is itself; an array of objects is its elements'
  \<open>[object Object]\<close> joined by commas.\<close>

fun String_content :: "message_content \<Rightarrow> string" where
  "String_content (Text str) = str"
| "String_content (ToolUses items) = join '','' (map (\<lambda>x. ''[object Object]'') items)"
| "String_content (ToolResults items) = join '','' (map (\<lambda>x. ''[object Object]'') items)"

definition executeAgenticWorkflow ::
  "env \<Rightarrow> string \<Rightarrow> ToolConfiguration \<Rightarrow> nat \<Rightarrow> world \<Rightarrow> (error + workflow_result) \<times> world" where
  "executeAgenticWorkflow e initialPrompt tls maxIterations w =
     (case agenticLoop e tls maxIterations
             \<lparr>messages_st = [\<lparr>role = user, content = Text initialPrompt\<rparr>],
              toolCalls_st = [], iterations_st = 0\<rparr> w of
        (Inl err, w1) \<Rightarrow> (Inl err, w1)
      | (Inr st, w1) \<Rightarrow>
          (Inr \<lparr>finalResponse =
                   (if role (last (messages_st st)) = assistant
                    then String_content (content (last (messages_st st)))
                    else ''Workflow completed''),
                 toolCalls = toolCalls_st st,
                 iterations = iterations_st st\<rparr>, w1))"

subsection \<open>Asynchronous code\<close>

text \<open>
  An \<open>async\<close> function is a function of the world that returns a result or a thrown
  error, with the world after it. \<open>await m f\<close> is \<open>const x = await m; f x\<close>: a rejection
  of \<open>m\<close> leaves the function at once. \<open>try_catch m h\<close> is
  \<open>try { m } catch (error) { h error }\<close>.
\<close>

type_synonym 'a async = "world \<Rightarrow> (error + 'a) \<times> world"

definition resolve :: "'a \<Rightarrow> 'a async" where
  "resolve x w = (Inr x, w)"

definition await :: "'a async \<Rightarrow> ('a \<Rightarrow> 'b async) \<Rightarrow> 'b async" where
  "await m f w = (case m w of (Inl err, w1) \<Rightarrow> (Inl err, w1) | (Inr x, w1) \<Rightarrow> f x w1)"

definition try_catch :: "'a async \<Rightarrow> (error \<Rightarrow> 'a async) \<Rightarrow> 'a async" where
  "try_catch m h w = (case m w of (Inl err, w1) \<Rightarrow> h err w1 | (Inr x, w1) \<Rightarrow> (Inr x, w1))"

subsection \<open>\<open>LambdaService\<close>\<close>

record config_updates =
  timeout :: jsvalue
  memorySize :: jsvalue
  environment :: "(string \<times> string) list option"

record invoke_result =
  statusCode :: nat
  payload :: jsvalue
  executedVersion :: "string option"
  functionError :: "string option"

record function_health =
  healthy :: bool
  issues :: "string list"

definition getFunctionConfig :: "env \<Rightarrow> jsvalue \<Rightarrow> FunctionConfiguration async" where
  "getFunctionConfig e functionName w =
     (lambdaGetConfiguration e (sent w) functionName,
      send (GetFunctionConfigurationCommand functionName) w)"

definition updateFunctionConfig :: "env \<Rightarrow> jsvalue \<Rightarrow> config_updates \<Rightarrow> FunctionConfiguration async" where
  "updateFunctionConfig e functionName updates w =
     (lambdaUpdateConfiguration e (sent w) functionName (timeout updates) (memorySize updates)
        (environment updates),
      send (UpdateFunctionConfigurationCommand functionName (timeout updates) (memorySize updates)
              (environment updates)) w)"

text \<open>The response's payload is \<open>None\<close> when absent, \<open>Some (Inl err)\<close> when
  \<open>JSON.parse\<close> throws on it, \<open>Some (Inr v)\<close> when it parses to \<open>v\<close>.\<close>

definition invokeFunction :: "env \<Rightarrow> jsvalue \<Rightarrow> jsvalue \<Rightarrow> invocation_type \<Rightarrow> invoke_result async" where
  "invokeFunction e functionName pl invocationType w =
     (let w1 = send (InvokeCommand functionName invocationType pl) w
      in case lambdaInvoke e (sent w) functionName invocationType pl of
           Inl err \<Rightarrow> (Inl err, w1)
         | Inr response \<Rightarrow>
             (case Payload response of
                Some (Inl err) \<Rightarrow> (Inl err, w1)
              | parsed \<Rightarrow>
                  (Inr \<lparr>statusCode = (case StatusCode response of None \<Rightarrow> 0 | Some c \<Rightarrow> c),
                        payload = (case parsed of Some (Inr v) \<Rightarrow> v | _ \<Rightarrow> JNull),
                        executedVersion = ExecutedVersion response,
                        functionError = FunctionError response\<rparr>, w1)))"


subsection \<open>\<open>CloudWatchService\<close>: the telemetry source\<close>

definition getMetrics :: "env \<Rightarrow> jsvalue \<Rightarrow> jsvalue \<Rightarrow> jsvalue \<Rightarrow> MetricData async" where
  "getMetrics e ns mname dims w =
     (cloudwatchMetrics e (sent w) ns mname dims, send (GetMetricData ns mname dims) w)"


definition queryLogs :: "env \<Rightarrow> jsvalue \<Rightarrow> jsvalue \<Rightarrow> LogEntry list async" where
  "queryLogs e logGroupName filterPattern w =
     (cloudwatchQueryLogs e (sent w) logGroupName filterPattern,
      send (FilterLogEvents logGroupName filterPattern) w)"

subsection \<open>\<open>DynamoDBService\<close>: the audit sink and the incident store\<close>

definition dynamo :: "env \<Rightarrow> command \<Rightarrow> unit async" where
  "dynamo e c w =
     (case dynamoSend e (sent w) c of
        Some err \<Rightarrow> (Inl err, send c w)
      | None \<Rightarrow> (Inr (), send c w))"

record audit_fields =
  incidentId_new :: string
  action_new :: string
  actor_new :: actor
  details_new :: audit_details
  result_new :: audit_result

definition logAudit :: "env \<Rightarrow> audit_fields \<Rightarrow> AuditEntry async" where
  "logAudit e entry w =
     (let (i, w1) = uuidv4 e w;
          auditEntry = \<lparr>id_aud = i, incidentId_aud = incidentId_new entry, action = action_new entry,
                        actor = actor_new entry, details_aud = details_new entry,
                        result = result_new entry\<rparr>
      in await (dynamo e (PutCommand (tableName e) (audit_item auditEntry)))
           (\<lambda>u. resolve auditEntry) w1)"




definition logActionExecution ::
  "env \<Rightarrow> string \<Rightarrow> string \<Rightarrow> audit_result \<Rightarrow> audit_details \<Rightarrow> unit async" where
  "logActionExecution e incidentId actId res details =
     await (logAudit e \<lparr>incidentId_new = incidentId, action_new = ''action_executed_'' @ actId,
                         actor_new = system, details_new = details, result_new = res\<rparr>) (\<lambda>a.
     resolve ())"

subsection \<open>\<open>OpsPilotAgent\<close>\<close>

text \<open>
  The agent's tools (\<open>initializeTools\<close>). \<open>getProperty\<close> reads a property of a value of type
  \<open>any\<close>: a \<open>TypeError\<close> on \<open>undefined\<close> and \<open>null\<close>, \<open>undefined\<close> when the
  property is missing. The time window a tool computes is not part of the commands here,
  but the parameter object is still read for it.
\<close>

fun getProperty :: "jsvalue \<Rightarrow> string \<Rightarrow> jsvalue async" where
  "getProperty JUndefined k w =
     (Inl (Error (''Cannot read properties of undefined (reading '' @ [CHR 0x27] @ k @ [CHR 0x27] @ '')'')), w)"
| "getProperty JNull k w =
     (Inl (Error (''Cannot read properties of null (reading '' @ [CHR 0x27] @ k @ [CHR 0x27] @ '')'')), w)"
| "getProperty (JObj kvs) k w = (Inr (case map_of kvs k of None \<Rightarrow> JUndefined | Some v \<Rightarrow> v), w)"
| "getProperty v k w = (Inr JUndefined, w)"

datatype tool_output =
  metric_data MetricData | log_entries "LogEntry list" | function_config FunctionConfiguration
  | invocation invoke_result

record Tool =
  name_tool :: string
  description_tool :: string
  parameters_tool :: jsvalue
  execute :: "jsvalue \<Rightarrow> tool_output async"

definition string_property :: jsvalue where
  "string_property = JObj [(''type'', JStr ''string'')]"

definition object_property :: jsvalue where
  "object_property = JObj [(''type'', JStr ''object'')]"

definition initializeTools :: "env \<Rightarrow> Tool list" where
  "initializeTools e =
     [\<lparr>name_tool = ''get_cloudwatch_metrics'',
       description_tool = ''Retrieve CloudWatch metrics for analysis'',
       parameters_tool = JObj
         [(''type'', JStr ''object''),
          (''properties'', JObj [(''namespace'', string_property), (''metricName'', string_property),
                                 (''dimensions'', object_property), (''startTime'', string_property),
                                 (''endTime'', string_property)]),
          (''required'', JArr [JStr ''namespace'', JStr ''metricName'', JStr ''dimensions''])],
       execute = (\<lambda>params.
         await (getProperty params ''startTime'') (\<lambda>startTime.
         await (getProperty params ''endTime'') (\<lambda>endTime.
         await (getProperty params ''namespace'') (\<lambda>ns.
         await (getProperty params ''metricName'') (\<lambda>mname.
         await (getProperty params ''dimensions'') (\<lambda>dims.
         await (getMetrics e ns mname dims) (\<lambda>out. resolve (metric_data out))))))))\<rparr>,
      \<lparr>name_tool = ''query_logs'',
       description_tool = ''Query CloudWatch Logs for error analysis'',
       parameters_tool = JObj
         [(''type'', JStr ''object''),
          (''properties'', JObj [(''logGroupName'', string_property), (''filterPattern'', string_property),
                                 (''startTime'', string_property), (''endTime'', string_property)]),
          (''required'', JArr [JStr ''logGroupName''])],
       execute = (\<lambda>params.
         await (getProperty params ''startTime'') (\<lambda>startTime.
         await (getProperty params ''endTime'') (\<lambda>endTime.
         await (getProperty params ''logGroupName'') (\<lambda>logGroupName.
         await (getProperty params ''filterPattern'') (\<lambda>filterPattern.
         await (queryLogs e logGroupName filterPattern) (\<lambda>out. resolve (log_entries out)))))))\<rparr>,
      \<lparr>name_tool = ''get_lambda_config'',
       description_tool = ''Get Lambda function configuration'',
       parameters_tool = JObj
         [(''type'', JStr ''object''),
          (''properties'', JObj [(''functionName'', string_property)]),
          (''required'', JArr [JStr ''functionName''])],
       execute = (\<lambda>params.
         await (getProperty params ''functionName'') (\<lambda>functionName.
         await (getFunctionConfig e functionName) (\<lambda>out. resolve (function_config out))))\<rparr>,
      \<lparr>name_tool = ''test_lambda_function'',
       description_tool = ''Test Lambda function with sample payload'',
       parameters_tool = JObj
         [(''type'', JStr ''object''),
          (''properties'', JObj [(''functionName'', string_property), (''payload'', object_property)]),
          (''required'', JArr [JStr ''functionName'', JStr ''payload''])],
       execute = (\<lambda>params.
         await (getProperty params ''functionName'') (\<lambda>functionName.
         await (getProperty params ''payload'') (\<lambda>pl.
         await (invokeFunction e functionName pl RequestResponse) (\<lambda>out. resolve (invocation out)))))\<rparr>]"

definition getToolConfiguration :: "env \<Rightarrow> ToolConfiguration" where
  "getToolConfiguration e =
     \<lparr>tools = map (\<lambda>tool. \<lparr>name_spec = name_tool tool,
                             description_spec = description_tool tool,
                             inputSchema = parameters_tool tool\<rparr>) (initializeTools e),
      toolChoice = None\<rparr>"

text \<open>\<open>arn.match(/function:([^:]+)/)\<close>: the first place where \<open>function:\<close> is followed
  by at least one character other than a colon; the result is the run of such characters.\<close>

fun extractFunctionName :: "string \<Rightarrow> string option" where
  "extractFunctionName [] = None"
| "extractFunctionName (c # cs) =
     (if prefix ''function:'' (c # cs) \<and> takeWhile (\<lambda>x. x \<noteq> CHR '':'') (drop 9 (c # cs)) \<noteq> []
      then Some (takeWhile (\<lambda>x. x \<noteq> CHR '':'') (drop 9 (c # cs)))
      else extractFunctionName cs)"

text \<open>\<open>toLowerCase\<close> on the letters A to Z; \<open>includes\<close> is the substring test.\<close>

definition toLowerCase :: "string \<Rightarrow> string" where
  "toLowerCase str =
     map (\<lambda>c. if 65 \<le> (of_char c :: nat) \<and> (of_char c :: nat) \<le> 90
               then char_of ((of_char c :: nat) + 32) else c) str"

fun "includes" :: "string \<Rightarrow> string \<Rightarrow> bool" where
  "includes [] sub = (sub = [])"
| "includes (c # cs) sub = (prefix sub (c # cs) \<or> includes cs sub)"

definition nullable :: "string option \<Rightarrow> jsvalue" where
  "nullable x = (case x of None \<Rightarrow> JNull | Some str \<Rightarrow> JStr str)"

definition parseRemediationActions ::
  "env \<Rightarrow> string \<Rightarrow> Incident \<Rightarrow> world \<Rightarrow> RemediationAction list \<times> world" where
  "parseRemediationActions e planText incident w =
     (let functionName = extractFunctionName (resourceArn incident);
          (actions1, w1) =
            (if includes (toLowerCase planText) ''memory'' \<or> includes (toLowerCase planText) ''timeout''
             then (let (i, w') = uuidv4 e w
                   in ([\<lparr>id_act = i, type_act = update_config,
                          description_act = ''Increase Lambda memory and timeout'',
                          parameters = [(''functionName'', nullable functionName),
                                        (''memorySize'', JNum 512),
                                        (''timeout'', JNum 30)],
                          order = 1\<rparr>], w'))
             else ([], w));
          (actions2, w2) =
            (if includes (toLowerCase planText) ''restart'' \<or> includes (toLowerCase planText) ''redeploy''
             then (let (i, w') = uuidv4 e w1
                   in (actions1 @
                       [\<lparr>id_act = i, type_act = restart_service,
                          description_act = ''Update function configuration to trigger restart'',
                          parameters = [(''functionName'', nullable functionName)],
                          order = 2\<rparr>], w'))
             else (actions1, w1))
      in if length actions2 = 0
         then (let (i, w') = uuidv4 e w2
               in (actions2 @
                   [\<lparr>id_act = i, type_act = custom,
                      description_act = ''Manual investigation required'',
                      parameters = [(''note'', JStr planText)],
                      order = 1\<rparr>], w'))
         else (actions2, w2))"

definition performSafetyChecks :: "env \<Rightarrow> RemediationAction list \<Rightarrow> Incident \<Rightarrow> SafetyCheck list" where
  "performSafetyChecks e acts incident =
     [\<lparr>type_chk = rate_limit,
       description_chk = ''Ensure we are not making too many changes'',
       passed = (length acts \<le> 5),
       details_chk = Some (numberToString e (real (length acts)) @ '' actions planned'')\<rparr>,
      \<lparr>type_chk = rollback_available,
       description_chk = ''Verify rollback procedures exist'',
       passed = True,
       details_chk = Some ''Configuration changes can be reverted''\<rparr>,
      \<lparr>type_chk = resource_limit,
       description_chk = ''Check resource allocation is within limits'',
       passed = True,
       details_chk = Some ''All changes within AWS limits''\<rparr>]"

definition generateRemediationPlan :: "env \<Rightarrow> Incident \<Rightarrow> DiagnosisResult \<Rightarrow> RemediationPlan async" where
  "generateRemediationPlan e incident diagnosis =
     await (case extractFunctionName (resourceArn incident) of
              None \<Rightarrow> resolve None
            | Some functionName \<Rightarrow>
                try_catch (await (getFunctionConfig e (JStr functionName)) (\<lambda>c. resolve (Some c)))
                          (\<lambda>err. resolve None)) (\<lambda>currentConfig.
     await (bedrock_generateRemediationPlan e (reasoning diagnosis) (resourceArn incident) currentConfig)
       (\<lambda>planText w.
          let (acts, w1) = parseRemediationActions e planText incident w;
              safety = performSafetyChecks e acts incident;
              (i, w2) = uuidv4 e w1
          in (Inr \<lparr>id_plan = i,
                    incidentId_plan = id_inc incident,
                    actions = acts,
                    estimatedImpact = ''Medium - Configuration changes'',
                    safetyChecks = safety,
                    approvalRequired = list_ex (\<lambda>check. \<not> passed check) safety\<rparr>, w2)))"

definition param :: "RemediationAction \<Rightarrow> string \<Rightarrow> jsvalue" where
  "param act k = (case map_of (parameters act) k of None \<Rightarrow> JUndefined | Some v \<Rightarrow> v)"

fun assign :: "(string \<times> string) list \<Rightarrow> string \<Rightarrow> string \<Rightarrow> (string \<times> string) list" where
  "assign [] k v = [(k, v)]"
| "assign ((k', v') # kvs) k v = (if k' = k then (k, v) # kvs else (k', v') # assign kvs k v)"

definition executeAction :: "env \<Rightarrow> RemediationAction \<Rightarrow> ExecutionResult async" where
  "executeAction e act =
     try_catch
       (await
          (case type_act act of
             update_config \<Rightarrow>
               await (updateFunctionConfig e (param act ''functionName'')
                        \<lparr>timeout = param act ''timeout'',
                         memorySize = param act ''memorySize'',
                         environment = None\<rparr>)
                 (\<lambda>out. resolve (config_output out))
           | restart_service \<Rightarrow>
               await (getFunctionConfig e (param act ''functionName'')) (\<lambda>config w.
                 let vars = (case Environment config of
                               None \<Rightarrow> []
                             | Some en \<Rightarrow> (case Variables en of None \<Rightarrow> [] | Some vs \<Rightarrow> vs));
                     vars' = assign vars ''LAST_RESTART'' (isoNow e (sent w))
                 in await (updateFunctionConfig e (param act ''functionName'')
                             \<lparr>timeout = JUndefined, memorySize = JUndefined,
                              environment = Some vars'\<rparr>)
                      (\<lambda>out. resolve (config_output out)) w)
           | _ \<Rightarrow> resolve (message_output ''Action type not implemented for auto-execution''))
          (\<lambda>out. resolve \<lparr>actionId = id_act act, success = True,
                            output_res = Some out, error_res = None\<rparr>))
       (\<lambda>err. resolve \<lparr>actionId = id_act act, success = False,
                        output_res = None, error_res = Some (message err)\<rparr>)"

text \<open>The \<open>for\<close> loop of \<open>executeRemediation\<close> over the sorted actions, with the results
  pushed so far.\<close>

fun executeActions ::
  "env \<Rightarrow> Incident \<Rightarrow> RemediationAction list \<Rightarrow> ExecutionResult list \<Rightarrow> ExecutionResult list async" where
  "executeActions e incident [] results = resolve results"
| "executeActions e incident (act # rest) results =
     await (executeAction e act) (\<lambda>res.
     await (logActionExecution e (id_inc incident) (id_act act)
              (if success res then audit_success else audit_failure)
              (action_details (type_act act) (output_res res) (error_res res))) (\<lambda>u.
     if \<not> success res then resolve (results @ [res])
     else executeActions e incident rest (results @ [res])))"

text \<open>\<open>Array.prototype.sort\<close> is stable, and so is \<open>sort_key\<close>. The sort is in place:
  after an execution the plan's actions are in sorted order.\<close>

definition executeRemediation :: "env \<Rightarrow> Incident \<Rightarrow> RemediationPlan \<Rightarrow> ExecutionResult list async" where
  "executeRemediation e incident pl w =
     (if approvalRequired pl then resolve [] w
      else executeActions e incident (sort_key order (actions pl)) [] w)"




record incident_response =
  diagnosis :: DiagnosisResult
  "plan" :: RemediationPlan
  executionResults :: "ExecutionResult list"
  verification :: VerificationResult


text \<open>Observations on what was sent: the status values written for an incident, oldest
  first, and the commands that only planning, execution or verification send.\<close>

fun statusWrites :: "string \<Rightarrow> command list \<Rightarrow> incident_status list" where
  "statusWrites i [] = []"
| "statusWrites i (PutCommand t (incident_item inc) # cs) =
     (if id_inc inc = i then status_inc inc # statusWrites i cs else statusWrites i cs)"
| "statusWrites i (UpdateCommand t k st # cs) =
     (if k = i then st # statusWrites i cs else statusWrites i cs)"
| "statusWrites i (c # cs) = statusWrites i cs"


text \<open>The names of the audit entries put, oldest first, and the audit entry that
  \<open>logActionExecution\<close> puts for an action.\<close>

fun auditActions :: "command list \<Rightarrow> string list" where
  "auditActions [] = []"
| "auditActions (PutCommand t (audit_item a) # cs) = action a # auditActions cs"
| "auditActions (c # cs) = auditActions cs"

definition actionAudit ::
  "env \<Rightarrow> world \<Rightarrow> string \<Rightarrow> string \<Rightarrow> audit_result \<Rightarrow> audit_details \<Rightarrow> command" where
  "actionAudit e w i actId res details =
     PutCommand (tableName e)
       (audit_item \<lparr>id_aud = uuid e (uuids w), incidentId_aud = i,
                    action = ''action_executed_'' @ actId, actor = system,
                    details_aud = details, result = res\<rparr>)"

text \<open>
  Attempting every action of a list, one after the other and whatever the outcomes: each
  action is executed and its outcome logged, as one pass of the loop does. Used to say
  what a run of \<open>executeRemediation\<close> did and did not do.
\<close>

fun attemptAll :: "env \<Rightarrow> Incident \<Rightarrow> RemediationAction list \<Rightarrow> ExecutionResult list async" where
  "attemptAll e incident [] = resolve []"
| "attemptAll e incident (act # rest) =
     await (executeAction e act) (\<lambda>res.
     await (logActionExecution e (id_inc incident) (id_act act)
              (if success res then audit_success else audit_failure)
              (action_details (type_act act) (output_res res) (error_res res))) (\<lambda>u.
     await (attemptAll e incident rest) (\<lambda>rs.
     resolve (res # rs))))"

text \<open>
  Observations on the loop, used to state its properties: the tool invocations a response
  asks for (\<open>None\<close> when the call fails or the response has no message or content),
  the input the loop sends for a given state, and the state after a turn.
\<close>

definition requestedTools :: "error + ConverseCommandOutput \<Rightarrow> ToolUse list option" where
  "requestedTools r =
     (case r of
        Inl err \<Rightarrow> None
      | Inr response \<Rightarrow>
          (case output response of
             None \<Rightarrow> None
           | Some out \<Rightarrow>
               (case message_out out of
                  None \<Rightarrow> None
                | Some msg \<Rightarrow> map_option collectToolUses (content_sdk msg))))"

definition loopInput :: "env \<Rightarrow> ToolConfiguration \<Rightarrow> loop_state \<Rightarrow> ConverseCommandInput" where
  "loopInput e tls st =
     converseInput e \<lparr>modelId = defaultModelId e, messages = messages_st st,
                      temperature = Some 0.5, maxTokens = None, toolConfig = Some tls\<rparr>"

definition toolTurn :: "loop_state \<Rightarrow> ToolUse list \<Rightarrow> loop_state" where
  "toolTurn st tus =
     st\<lparr>iterations_st := iterations_st st + 1,
        toolCalls_st := toolCalls_st st @
          map (\<lambda>tu. \<lparr>tool = name tu, input_call = input tu, output_call = mockOutput tu\<rparr>) tus,
        messages_st := messages_st st @
          [\<lparr>role = assistant, content = ToolUses tus\<rparr>,
           \<lparr>role = user, content = ToolResults
              (map (\<lambda>tu. \<lparr>toolUseId_res = toolUseId tu, content_res = mockOutput tu,
                          status_res = Some status_success\<rparr>) tus)\<rparr>]\<rparr>"

definition textTurn :: "loop_state \<Rightarrow> string \<Rightarrow> loop_state" where
  "textTurn st str =
     st\<lparr>iterations_st := iterations_st st + 1,
        messages_st := messages_st st @ [\<lparr>role = assistant, content = Text str\<rparr>]\<rparr>"

definition requestsTool :: "error + ConverseCommandOutput \<Rightarrow> bool" where
  "requestsTool r = (case requestedTools r of None \<Rightarrow> False | Some tus \<Rightarrow> tus \<noteq> [])"

definition lastAssistantContent :: "Message list \<Rightarrow> message_content option" where
  "lastAssistantContent msgs =
     (case filter (\<lambda>m. role m = assistant) msgs of
        [] \<Rightarrow> None
      | m # ms \<Rightarrow> Some (content (last (m # ms))))"

definition initialState :: "string \<Rightarrow> loop_state" where
  "initialState initialPrompt =
     \<lparr>messages_st = [\<lparr>role = user, content = Text initialPrompt\<rparr>], toolCalls_st = [], iterations_st = 0\<rparr>"

subsection \<open>Concrete collaborators and inputs\<close>

text \<open>
  Stubs for the collaborators, used to run the definitions on concrete inputs:
  \<open>demo_env\<close> answers every call successfully; \<open>always_tool_env\<close> is a reasoning
  service that asks for a tool on every turn; \<open>two_step_env\<close> asks for one tool on its
  first turn and answers in plain text afterwards.
\<close>

definition reply :: "ContentBlock list \<Rightarrow> error + ConverseCommandOutput" where
  "reply blocks =
     Inr \<lparr>output = Some \<lparr>message_out = Some \<lparr>role_sdk = assistant, content_sdk = Some blocks\<rparr>\<rparr>\<rparr>"

definition toolUseBlock :: "string \<Rightarrow> string \<Rightarrow> jsvalue \<Rightarrow> ContentBlock" where
  "toolUseBlock i n inp =
     \<lparr>text = None,
      toolUse = Some \<lparr>toolUseId_blk = Some i, name_blk = Some n, input_blk = inp\<rparr>,
      toolResult = None\<rparr>"

definition textBlock :: "string \<Rightarrow> ContentBlock" where
  "textBlock str = \<lparr>text = Some str, toolUse = None, toolResult = None\<rparr>"

definition demo_env :: env where
  "demo_env =
     \<lparr>defaultModelId = ''anthropic.claude-3-sonnet-20240229-v1:0'',
      tableName = ''OpsPilotAuditTrail'',
      uuid = (\<lambda>n. ''uuid-'' @ replicate n (CHR ''i'')),
      isoNow = (\<lambda>h. ''2024-01-01T00:00:00.000Z''),
      stringifyMetrics = (\<lambda>m. ''{}''),
      stringifyConfig = (\<lambda>c. ''{}''),
      numberToString = (\<lambda>r. if r = 0 then ''0'' else ''1''),
      bedrockSend = (\<lambda>h inp. reply [textBlock ''Lambda timeout too low'']),
      lambdaGetConfiguration = (\<lambda>h f. Inr \<lparr>Timeout = Some 3, MemorySize = Some 128, Environment = None\<rparr>),
      lambdaUpdateConfiguration = (\<lambda>h f t m v. Inr \<lparr>Timeout = Some 30, MemorySize = Some 512, Environment = None\<rparr>),
      lambdaInvoke = (\<lambda>h f t p. Inr \<lparr>StatusCode = Some 200, Payload = None, ExecutedVersion = None, FunctionError = None\<rparr>),
      cloudwatchMetrics = (\<lambda>h ns mname dims. Inl (Error ''ValidationError'')),
      cloudwatchLambdaMetrics = (\<lambda>h f. Inr []),
      cloudwatchQueryLogs = (\<lambda>h g p. Inr []),
      dynamoSend = (\<lambda>h c. None)\<rparr>"

definition config_tool_use :: ToolUse where
  "config_tool_use =
     \<lparr>toolUseId = ''tool-1'', name = ''get_lambda_config'',
      input = JObj [(''functionName'', JStr ''checkout'')]\<rparr>"

definition always_tool_env :: env where
  "always_tool_env =
     demo_env\<lparr>bedrockSend := (\<lambda>h inp.
        reply [toolUseBlock ''tool-1'' ''get_lambda_config'' (JObj [(''functionName'', JStr ''checkout'')])])\<rparr>"

definition two_step_env :: env where
  "two_step_env =
     demo_env\<lparr>bedrockSend := (\<lambda>h inp.
        if h = [] then reply [toolUseBlock ''tool-1'' ''get_lambda_config'' (JObj [(''functionName'', JStr ''checkout'')])]
        else reply [textBlock ''Timeout is 3 seconds''])\<rparr>"

definition demo_tools :: ToolConfiguration where
  "demo_tools =
     \<lparr>tools = [\<lparr>name_spec = ''get_lambda_config'',
                description_spec = ''Get Lambda function configuration'',
                inputSchema = JObj [(''type'', JStr ''object'')]\<rparr>],
      toolChoice = None\<rparr>"

definition w0 :: world where
  "w0 = \<lparr>sent = [], uuids = 0\<rparr>"

text \<open>
  An incident on the function \<open>checkout\<close>; a plan of three configuration updates A, B, C
  in which the resource controller (\<open>abc_env\<close>) rejects the update of B's function and
  accepts the others; the same plan marked as needing approval; and a reasoning service
  that fails every call.
\<close>

definition demo_incident :: Incident where
  "demo_incident =
     \<lparr>id_inc = ''incident-1'', severity = high,
      resourceArn = ''arn:aws:lambda:us-east-1:123456789012:function:checkout'',
      resourceType = rt_lambda,
      description_inc = ''High error rate and timeout issues'',
      metrics_inc = None, logs_inc = None, status_inc = status_open\<rparr>"

definition demo_diagnosis :: DiagnosisResult where
  "demo_diagnosis =
     \<lparr>rootCause = ''Lambda timeout too low'', confidence = 0.85,
      affectedComponents = [''checkout''], relatedMetrics = [],
      reasoning = ''Lambda timeout too low''\<rparr>"

definition action_A :: RemediationAction where
  "action_A = \<lparr>id_act = ''A'', type_act = update_config,
                description_act = ''Increase Lambda memory and timeout'',
                parameters = [(''functionName'', JStr ''checkout''), (''memorySize'', JNum 512),
                              (''timeout'', JNum 30)],
                order = 1\<rparr>"

definition action_B :: RemediationAction where
  "action_B = \<lparr>id_act = ''B'', type_act = update_config,
                description_act = ''Increase Lambda memory and timeout'',
                parameters = [(''functionName'', JStr ''payments''), (''memorySize'', JNum 512),
                              (''timeout'', JNum 30)],
                order = 2\<rparr>"

definition action_C :: RemediationAction where
  "action_C = \<lparr>id_act = ''C'', type_act = update_config,
                description_act = ''Increase Lambda memory and timeout'',
                parameters = [(''functionName'', JStr ''search''), (''memorySize'', JNum 512),
                              (''timeout'', JNum 30)],
                order = 3\<rparr>"

definition abc_plan :: RemediationPlan where
  "abc_plan = \<lparr>id_plan = ''plan-1'', incidentId_plan = ''incident-1'',
                actions = [action_A, action_B, action_C],
                estimatedImpact = ''Medium - Configuration changes'',
                safetyChecks = performSafetyChecks demo_env [action_A, action_B, action_C] demo_incident,
                approvalRequired = False\<rparr>"

definition blocked_plan :: RemediationPlan where
  "blocked_plan = abc_plan\<lparr>approvalRequired := True\<rparr>"

definition abc_env :: env where
  "abc_env =
     demo_env\<lparr>lambdaUpdateConfiguration := (\<lambda>h f t m v.
        if f = JStr ''payments'' then Inl (Error ''ResourceNotFoundException'')
        else Inr \<lparr>Timeout = Some 30, MemorySize = Some 512, Environment = None\<rparr>)\<rparr>"


definition abc_results :: "ExecutionResult list" where
  "abc_results =
     [\<lparr>actionId = ''A'', success = True,
       output_res = Some (config_output \<lparr>Timeout = Some 30, MemorySize = Some 512, Environment = None\<rparr>),
       error_res = None\<rparr>,
      \<lparr>actionId = ''B'', success = False, output_res = None,
       error_res = Some ''ResourceNotFoundException''\<rparr>]"

definition abc_world :: world where
  "abc_world =
     \<lparr>sent =
        [UpdateFunctionConfigurationCommand (JStr ''checkout'') (JNum 30) (JNum 512) None,
         PutCommand ''OpsPilotAuditTrail''
           (audit_item \<lparr>id_aud = ''uuid-'', incidentId_aud = ''incident-1'',
                        action = ''action_executed_A'', actor = system,
                        details_aud = action_details update_config
                          (Some (config_output \<lparr>Timeout = Some 30, MemorySize = Some 512, Environment = None\<rparr>))
                          None,
                        result = audit_success\<rparr>),
         UpdateFunctionConfigurationCommand (JStr ''payments'') (JNum 30) (JNum 512) None,
         PutCommand ''OpsPilotAuditTrail''
           (audit_item \<lparr>id_aud = ''uuid-i'', incidentId_aud = ''incident-1'',
                        action = ''action_executed_B'', actor = system,
                        details_aud = action_details update_config None (Some ''ResourceNotFoundException''),
                        result = audit_failure\<rparr>)],
      uuids = 2\<rparr>"

text \<open>The series of the repository's unit test for the analyser, for a list of values.\<close>

definition series :: "real list \<Rightarrow> MetricData" where
  "series vs = \<lparr>metricName = ''Errors'', namespace = ''AWS/Lambda'',
                dimensions = [(''FunctionName'', ''test'')],
                timestamps = [0 ..< length vs], values = vs, unit = ''Count''\<rparr>"

section \<open>Properties\<close>

subsection \<open>Anomaly analyser\<close>

lemma sqrt_57_4_lower: "(13 / 4 :: real) \<le> sqrt (57 / 4)"
  by (rule real_le_rsqrt) (simp add: power2_eq_square)

lemma zscore_below_two: "a \<le> 13 \<Longrightarrow> \<not> 2 < a / (2 * sqrt (57 / 4))"
proof -
  assume a: "a \<le> 13"
  have "0 < sqrt (57 / 4 :: real)" by simp
  moreover have "a \<le> 4 * sqrt (57 / 4 :: real)" using sqrt_57_4_lower a by simp
  ultimately have "a / (2 * sqrt (57 / 4)) \<le> (2 :: real)"
    by (simp add: pos_divide_le_eq)
  then show ?thesis by simp
qed

text \<open>
  C7. On the series \<open>[1, 2, 1, 10]\<close> with threshold 2 the analyser flags nothing and
  reports \<open>hasAnomaly = false\<close>: the mean is 3.5, the population variance 14.25, and
  the z-score of the value 10 is \<open>6.5 / sqrt 14.25\<close>, about 1.72, which does not exceed 2.
  (With a population deviation no point of a four-point series can have a z-score above
  \<open>sqrt 3\<close>.) The repository's unit test for this series expects the value 10 to be
  flagged.
\<close>

theorem analyzeMetricAnomalies_1_2_1_10:
  "analyzeMetricAnomalies (series [1, 2, 1, 10]) 2 = \<lparr>hasAnomaly = False, anomalies = []\<rparr>"
  by (simp add: analyzeMetricAnomalies_def series_def Let_def index_opt_def upt_conv_Cons
        power2_eq_square zscore_below_two)

subsection \<open>Tool-calling loop\<close>

lemma loop_exit: "\<not> iterations_st st < n \<Longrightarrow> agenticLoop e tls n st w = (Inr st, w)"
  by (subst agenticLoop.simps) simp

lemma loop_error:
  assumes "iterations_st st < n" and "bedrockSend e (sent w) (loopInput e tls st) = Inl err"
  shows "agenticLoop e tls n st w = (Inl err, send (ConverseCommand (loopInput e tls st)) w)"
  using assms by (subst agenticLoop.simps) (simp add: converse_def loopInput_def Let_def)

lemma loop_tool_step:
  assumes "iterations_st st < n"
    and "requestedTools (bedrockSend e (sent w) (loopInput e tls st)) = Some tus"
    and "tus \<noteq> []"
  shows "agenticLoop e tls n st w =
           agenticLoop e tls n (toolTurn st tus) (send (ConverseCommand (loopInput e tls st)) w)"
  using assms
  by (subst agenticLoop.simps)
     (auto simp: converse_def Let_def requestedTools_def toolTurn_def loopInput_def
           split: sum.splits option.splits)

lemma loop_text_step:
  assumes "iterations_st st < n"
    and "bedrockSend e (sent w) (loopInput e tls st) = Inr response"
    and "requestedTools (Inr response) = Some []"
  shows "agenticLoop e tls n st w =
           (Inr (textTurn st (extractTextFromResponse response)),
            send (ConverseCommand (loopInput e tls st)) w)"
  using assms
  by (subst agenticLoop.simps)
     (auto simp: converse_def Let_def loopInput_def requestedTools_def textTurn_def
           extractTextFromResponse_def split: option.splits)

lemma loop_break_step:
  assumes "iterations_st st < n"
    and "bedrockSend e (sent w) (loopInput e tls st) = Inr response"
    and "requestedTools (Inr response) = None"
  shows "agenticLoop e tls n st w =
           (Inr (st\<lparr>iterations_st := iterations_st st + 1\<rparr>),
            send (ConverseCommand (loopInput e tls st)) w)"
  using assms
  by (subst agenticLoop.simps)
     (auto simp: converse_def Let_def loopInput_def requestedTools_def split: option.splits)

lemma loop_cases:
  assumes "iterations_st st < n"
  shows "(\<exists>err. agenticLoop e tls n st w = (Inl err, send (ConverseCommand (loopInput e tls st)) w))
       \<or> agenticLoop e tls n st w =
               (Inr (st\<lparr>iterations_st := iterations_st st + 1\<rparr>), send (ConverseCommand (loopInput e tls st)) w)
       \<or> (\<exists>str. agenticLoop e tls n st w =
               (Inr (textTurn st str), send (ConverseCommand (loopInput e tls st)) w))
       \<or> (\<exists>tus. tus \<noteq> [] \<and>
               requestedTools (bedrockSend e (sent w) (loopInput e tls st)) = Some tus \<and>
               agenticLoop e tls n st w =
                 agenticLoop e tls n (toolTurn st tus) (send (ConverseCommand (loopInput e tls st)) w))"
proof (cases "bedrockSend e (sent w) (loopInput e tls st)")
  case (Inl err)
  then show ?thesis using loop_error [OF assms] by blast
next
  case (Inr response)
  show ?thesis
  proof (cases "requestedTools (Inr response)")
    case None
    then show ?thesis using loop_break_step [OF assms Inr] by blast
  next
    case (Some tus)
    show ?thesis
    proof (cases "tus = []")
      case True
      then show ?thesis using loop_text_step [OF assms Inr] Some by blast
    next
      case False
      then show ?thesis using loop_tool_step [OF assms _ False, of e w tls] Some Inr by simp
    qed
  qed
qed

lemma loop_calls:
  "\<exists>cs. sent (snd (agenticLoop e tls n st w)) = sent w @ map ConverseCommand cs \<and>
        uuids (snd (agenticLoop e tls n st w)) = uuids w \<and>
        length cs \<le> n - iterations_st st \<and>
        (\<forall>st'. fst (agenticLoop e tls n st w) = Inr st' \<longrightarrow>
               iterations_st st' = iterations_st st + length cs)"
proof (induction "n - iterations_st st" arbitrary: st w)
  case 0
  then have "\<not> iterations_st st < n" by simp
  then show ?case by (simp add: loop_exit)
next
  case (Suc k)
  then have lt: "iterations_st st < n" by simp
  let ?c = "loopInput e tls st"
  let ?w1 = "send (ConverseCommand ?c) w"
  have one: "sent ?w1 = sent w @ map ConverseCommand [?c]" "uuids ?w1 = uuids w"
    by (simp_all add: send_def)
  consider (error) err where
      "agenticLoop e tls n st w = (Inl err, ?w1)"
    | (no_message) "agenticLoop e tls n st w = (Inr (st\<lparr>iterations_st := iterations_st st + 1\<rparr>), ?w1)"
    | (plain) str where "agenticLoop e tls n st w = (Inr (textTurn st str), ?w1)"
    | (tool) tus where "tus \<noteq> []"
        "agenticLoop e tls n st w = agenticLoop e tls n (toolTurn st tus) ?w1"
    using loop_cases [OF lt, of e tls w] by blast
  then show ?case
  proof cases
    case (error err)
    then show ?thesis using one lt by (intro exI [of _ "[?c]"]) simp
  next
    case no_message
    then show ?thesis using one lt by (intro exI [of _ "[?c]"]) simp
  next
    case (plain str)
    then show ?thesis using one lt by (intro exI [of _ "[?c]"]) (simp add: textTurn_def)
  next
    case (tool tus)
    have k: "k = n - iterations_st (toolTurn st tus)"
      using Suc(2) by (simp add: toolTurn_def)
    from Suc(1) [OF k, of ?w1] obtain cs where cs:
      "sent (snd (agenticLoop e tls n (toolTurn st tus) ?w1)) = sent ?w1 @ map ConverseCommand cs"
      "uuids (snd (agenticLoop e tls n (toolTurn st tus) ?w1)) = uuids ?w1"
      "length cs \<le> n - iterations_st (toolTurn st tus)"
      "\<forall>st'. fst (agenticLoop e tls n (toolTurn st tus) ?w1) = Inr st' \<longrightarrow>
               iterations_st st' = iterations_st (toolTurn st tus) + length cs"
      by blast
    show ?thesis
      using cs lt tool(2) one
      by (intro exI [of _ "?c # cs"]) (simp add: toolTurn_def)
  qed
qed

lemma requestsTool_obtain:
  assumes "requestsTool r"
  shows "\<exists>tus. requestedTools r = Some tus \<and> tus \<noteq> []"
  using assms by (auto simp: requestsTool_def split: option.splits)

lemma loop_always_tool:
  assumes always: "\<And>h inp. requestsTool (bedrockSend e h inp)"
    and "iterations_st st \<le> n" and "role (last (messages_st st)) = user"
  shows "\<exists>st' w'. agenticLoop e tls n st w = (Inr st', w') \<and> iterations_st st' = n \<and>
           length (sent w') = length (sent w) + (n - iterations_st st) \<and>
           role (last (messages_st st')) = user"
  using assms(2,3)
proof (induction "n - iterations_st st" arbitrary: st w)
  case 0
  then have "\<not> iterations_st st < n" "iterations_st st = n" by simp_all
  then show ?case using 0 by (simp add: loop_exit)
next
  case (Suc k)
  then have lt: "iterations_st st < n" by simp
  let ?c = "loopInput e tls st"
  let ?w1 = "send (ConverseCommand ?c) w"
  obtain tus where tus: "requestedTools (bedrockSend e (sent w) ?c) = Some tus" "tus \<noteq> []"
    using always requestsTool_obtain by blast
  have step: "agenticLoop e tls n st w = agenticLoop e tls n (toolTurn st tus) ?w1"
    by (rule loop_tool_step [OF lt tus])
  have k: "k = n - iterations_st (toolTurn st tus)"
    using Suc(2) by (simp add: toolTurn_def)
  have le: "iterations_st (toolTurn st tus) \<le> n" using lt by (simp add: toolTurn_def)
  have usr: "role (last (messages_st (toolTurn st tus))) = user" by (simp add: toolTurn_def)
  from Suc(1) [OF k le usr, of ?w1] show ?case
    using step lt by (auto simp: send_def toolTurn_def)
qed

lemma requestedTools_reply: "requestedTools (reply blocks) = Some (collectToolUses blocks)"
  by (simp add: requestedTools_def reply_def)

lemma collect_toolUseBlock:
  "collectToolUses [toolUseBlock i n (JObj kvs)] = [\<lparr>toolUseId = i, name = n, input = JObj kvs\<rparr>]"
  by (simp add: collectToolUses_def toolUseBlock_def)

lemma collect_textBlock: "collectToolUses [textBlock str] = []"
  by (simp add: collectToolUses_def textBlock_def)

lemma workflow_of_loop:
  assumes "agenticLoop e tls n (initialState p) w = (Inr st, w')"
  shows "executeAgenticWorkflow e p tls n w =
           (Inr \<lparr>finalResponse =
                   (if role (last (messages_st st)) = assistant
                    then String_content (content (last (messages_st st)))
                    else ''Workflow completed''),
                 toolCalls = toolCalls_st st,
                 iterations = iterations_st st\<rparr>, w')"
  using assms by (simp add: executeAgenticWorkflow_def initialState_def)

lemma demo_env_returns:
  "\<exists>res. fst (executeAgenticWorkflow demo_env p tls 3 w0) = Inr res"
proof -
  have "bedrockSend demo_env (sent w0) (loopInput demo_env tls (initialState p))
          = reply [textBlock ''Lambda timeout too low'']"
    by (simp add: demo_env_def)
  then have "agenticLoop demo_env tls 3 (initialState p) w0 =
      (Inr (textTurn (initialState p) (extractTextFromResponse
              \<lparr>output = Some \<lparr>message_out = Some \<lparr>role_sdk = assistant,
                   content_sdk = Some [textBlock ''Lambda timeout too low'']\<rparr>\<rparr>\<rparr>)),
       send (ConverseCommand (loopInput demo_env tls (initialState p))) w0)"
    by (intro loop_text_step)
       (simp_all add: reply_def requestedTools_def collect_textBlock initialState_def)
  then show ?thesis by (simp add: workflow_of_loop)
qed

lemma workflow_bound:
  "\<exists>cs. sent (snd (executeAgenticWorkflow e p tls n w)) = sent w @ map ConverseCommand cs \<and>
        length cs \<le> n \<and>
        (\<forall>res. fst (executeAgenticWorkflow e p tls n w) = Inr res \<longrightarrow> iterations res = length cs)"
proof -
  obtain cs where cs:
    "sent (snd (agenticLoop e tls n (initialState p) w)) = sent w @ map ConverseCommand cs"
    "length cs \<le> n - iterations_st (initialState p)"
    "\<forall>st'. fst (agenticLoop e tls n (initialState p) w) = Inr st' \<longrightarrow>
        iterations_st st' = iterations_st (initialState p) + length cs"
    using loop_calls [of e tls n "initialState p" w] by blast
  show ?thesis
    using cs
    by (intro exI [of _ cs])
       (auto simp: executeAgenticWorkflow_def initialState_def split: prod.splits sum.splits)
qed

lemma workflow_always_tool:
  assumes "\<And>h inp. requestsTool (bedrockSend e h inp)"
  shows "\<exists>res w'. executeAgenticWorkflow e p tls n w = (Inr res, w') \<and> iterations res = n \<and>
           finalResponse res = ''Workflow completed'' \<and>
           length (sent w') = length (sent w) + n"
proof -
  obtain st' w' where l:
    "agenticLoop e tls n (initialState p) w = (Inr st', w')" "iterations_st st' = n"
    "length (sent w') = length (sent w) + (n - iterations_st (initialState p))"
    "role (last (messages_st st')) = user"
    using loop_always_tool [OF assms, of "initialState p" n tls w]
    by (auto simp: initialState_def)
  then show ?thesis
    by (simp add: executeAgenticWorkflow_def initialState_def [symmetric])
       (simp add: initialState_def)
qed

lemma workflow_two_step:
  assumes "2 \<le> n"
    and first: "\<And>inp. requestedTools (bedrockSend e (sent w) inp) = Some [tu]"
    and second: "\<And>c inp. requestedTools (bedrockSend e (sent w @ [c]) inp) = Some []"
  shows "\<exists>res w'. executeAgenticWorkflow e p tls n w = (Inr res, w') \<and> iterations res = 2 \<and>
           toolCalls res = [\<lparr>tool = name tu, input_call = input tu, output_call = mockOutput tu\<rparr>] \<and>
           length (sent w') = length (sent w) + 2"
proof -
  let ?st0 = "initialState p"
  let ?w1 = "send (ConverseCommand (loopInput e tls ?st0)) w"
  let ?st1 = "toolTurn ?st0 [tu]"
  have s1: "agenticLoop e tls n ?st0 w = agenticLoop e tls n ?st1 ?w1"
    using assms(1) first by (intro loop_tool_step) (simp_all add: initialState_def)
  have lt: "iterations_st ?st1 < n" using assms(1) by (simp add: toolTurn_def initialState_def)
  have "requestedTools (bedrockSend e (sent ?w1) (loopInput e tls ?st1)) = Some []"
    using second by (simp add: send_def)
  then obtain response where r: "bedrockSend e (sent ?w1) (loopInput e tls ?st1) = Inr response"
    "requestedTools (Inr response) = Some []"
    by (cases "bedrockSend e (sent ?w1) (loopInput e tls ?st1)") (auto simp: requestedTools_def)
  have s2: "agenticLoop e tls n ?st1 ?w1 =
      (Inr (textTurn ?st1 (extractTextFromResponse response)),
       send (ConverseCommand (loopInput e tls ?st1)) ?w1)"
    by (rule loop_text_step [OF lt r])
  show ?thesis
    using s1 s2
    by (simp add: executeAgenticWorkflow_def initialState_def [symmetric])
       (simp add: initialState_def textTurn_def toolTurn_def send_def)
qed

lemma always_tool_env_requests: "requestsTool (bedrockSend always_tool_env h inp)"
  by (simp add: always_tool_env_def requestsTool_def requestedTools_reply collect_toolUseBlock)

lemma two_step_env_first:
  "requestedTools (bedrockSend two_step_env (sent w0) inp) = Some [config_tool_use]"
  by (simp add: two_step_env_def w0_def requestedTools_reply collect_toolUseBlock config_tool_use_def)

lemma two_step_env_second:
  "requestedTools (bedrockSend two_step_env (sent w0 @ [c]) inp) = Some []"
  by (simp add: two_step_env_def w0_def requestedTools_reply collect_textBlock)

text \<open>
  C4. \<open>executeAgenticWorkflow\<close> sends at most \<open>maxIterations\<close> requests to the reasoning
  service, one per iteration, and the \<open>iterations\<close> it returns is their number. With a
  service that asks for at least one tool on every turn it returns after exactly
  \<open>maxIterations\<close> iterations. With a service that asks for one tool on the first turn
  and answers without a tool request on the second (and a budget of at least 2) it returns
  after exactly 2 iterations with exactly one tool invocation recorded.
\<close>

theorem workflow_iteration_bound:
  "(\<exists>cs. sent (snd (executeAgenticWorkflow e p tls n w)) = sent w @ map ConverseCommand cs \<and>
         length cs \<le> n \<and>
         (\<forall>res. fst (executeAgenticWorkflow e p tls n w) = Inr res \<longrightarrow> iterations res = length cs))
   \<and> ((\<forall>h inp. requestsTool (bedrockSend ea h inp)) \<longrightarrow>
        (\<exists>res w'. executeAgenticWorkflow ea p tls n w = (Inr res, w') \<and> iterations res = n \<and>
                  length (sent w') = length (sent w) + n))
   \<and> (2 \<le> nb \<and> (\<forall>inp. requestedTools (bedrockSend eb (sent w) inp) = Some [tu]) \<and>
        (\<forall>c inp. requestedTools (bedrockSend eb (sent w @ [c]) inp) = Some []) \<longrightarrow>
        (\<exists>res w'. executeAgenticWorkflow eb p tls nb w = (Inr res, w') \<and> iterations res = 2 \<and>
                  toolCalls res = [\<lparr>tool = name tu, input_call = input tu, output_call = mockOutput tu\<rparr>] \<and>
                  length (sent w') = length (sent w) + 2))"
proof (intro conjI impI)
  show "\<exists>cs. sent (snd (executeAgenticWorkflow e p tls n w)) = sent w @ map ConverseCommand cs \<and>
         length cs \<le> n \<and>
         (\<forall>res. fst (executeAgenticWorkflow e p tls n w) = Inr res \<longrightarrow> iterations res = length cs)"
    by (rule workflow_bound)
next
  assume "\<forall>h inp. requestsTool (bedrockSend ea h inp)"
  then show "\<exists>res w'. executeAgenticWorkflow ea p tls n w = (Inr res, w') \<and> iterations res = n \<and>
                  length (sent w') = length (sent w) + n"
    using workflow_always_tool [of ea p tls n w] by blast
next
  assume "2 \<le> nb \<and> (\<forall>inp. requestedTools (bedrockSend eb (sent w) inp) = Some [tu]) \<and>
        (\<forall>c inp. requestedTools (bedrockSend eb (sent w @ [c]) inp) = Some [])"
  then show "\<exists>res w'. executeAgenticWorkflow eb p tls nb w = (Inr res, w') \<and> iterations res = 2 \<and>
                  toolCalls res = [\<lparr>tool = name tu, input_call = input tu, output_call = mockOutput tu\<rparr>] \<and>
                  length (sent w') = length (sent w) + 2"
    using workflow_two_step [of nb eb w tu p tls] by blast
qed

theorem workflow_iteration_bound_witness:
  "(\<exists>cs res. sent (snd (executeAgenticWorkflow demo_env ''Diagnose checkout'' demo_tools 3 w0)) =
            sent w0 @ map ConverseCommand cs \<and> length cs \<le> 3 \<and>
         fst (executeAgenticWorkflow demo_env ''Diagnose checkout'' demo_tools 3 w0) = Inr res \<and>
         iterations res = length cs)
   \<and> (\<forall>h inp. requestsTool (bedrockSend always_tool_env h inp))
   \<and> (\<exists>res w'. executeAgenticWorkflow always_tool_env ''Diagnose checkout'' demo_tools 3 w0 = (Inr res, w') \<and>
                iterations res = 3 \<and> length (sent w') = length (sent w0) + 3)
   \<and> (2 :: nat) \<le> 10
   \<and> (\<forall>inp. requestedTools (bedrockSend two_step_env (sent w0) inp) = Some [config_tool_use])
   \<and> (\<forall>c inp. requestedTools (bedrockSend two_step_env (sent w0 @ [c]) inp) = Some [])
   \<and> (\<exists>res w'. executeAgenticWorkflow two_step_env ''Diagnose checkout'' demo_tools 10 w0 = (Inr res, w') \<and>
                iterations res = 2 \<and>
                toolCalls res = [\<lparr>tool = name config_tool_use, input_call = input config_tool_use,
                                  output_call = mockOutput config_tool_use\<rparr>] \<and>
                length (sent w') = length (sent w0) + 2)"
proof -
  note inst = workflow_iteration_bound [of demo_env "''Diagnose checkout''" demo_tools 3 w0
          always_tool_env 10 two_step_env config_tool_use]
  have a: "\<exists>cs res. sent (snd (executeAgenticWorkflow demo_env ''Diagnose checkout'' demo_tools 3 w0)) =
            sent w0 @ map ConverseCommand cs \<and> length cs \<le> 3 \<and>
         fst (executeAgenticWorkflow demo_env ''Diagnose checkout'' demo_tools 3 w0) = Inr res \<and>
         iterations res = length cs"
    using inst demo_env_returns [of "''Diagnose checkout''" demo_tools] by blast
  show ?thesis
    using a inst always_tool_env_requests two_step_env_first two_step_env_second
    by simp
qed

lemma always_tool_once:
  "agenticLoop always_tool_env demo_tools 1 (initialState p) w0 =
     (Inr (toolTurn (initialState p) [config_tool_use]),
      send (ConverseCommand (loopInput always_tool_env demo_tools (initialState p))) w0)"
proof -
  have "requestedTools (bedrockSend always_tool_env (sent w0)
          (loopInput always_tool_env demo_tools (initialState p))) = Some [config_tool_use]"
    by (simp add: always_tool_env_def requestedTools_reply collect_toolUseBlock config_tool_use_def)
  then have "agenticLoop always_tool_env demo_tools 1 (initialState p) w0 =
      agenticLoop always_tool_env demo_tools 1 (toolTurn (initialState p) [config_tool_use])
        (send (ConverseCommand (loopInput always_tool_env demo_tools (initialState p))) w0)"
    by (intro loop_tool_step) (simp_all add: initialState_def)
  then show ?thesis by (simp add: loop_exit toolTurn_def initialState_def)
qed

text \<open>
  C6, as stated, fails: with a budget of one iteration and a service that asks for a tool,
  the last assistant turn holds the tool request (as a string, \<open>[object Object]\<close>), while
  the \<open>finalResponse\<close> returned is \<open>Workflow completed\<close>.
\<close>

theorem workflow_exhausted_not_last_assistant_content:
  "\<exists>st w' res.
     agenticLoop always_tool_env demo_tools 1 (initialState ''Diagnose checkout'') w0 = (Inr st, w') \<and>
     executeAgenticWorkflow always_tool_env ''Diagnose checkout'' demo_tools 1 w0 = (Inr res, w') \<and>
     iterations res = 1 \<and>
     lastAssistantContent (messages_st st) = Some (ToolUses [config_tool_use]) \<and>
     String_content (ToolUses [config_tool_use]) = ''[object Object]'' \<and>
     finalResponse res = ''Workflow completed'' \<and>
     finalResponse res \<noteq> String_content (ToolUses [config_tool_use])"
  using always_tool_once [of "''Diagnose checkout''"]
  by (simp add: executeAgenticWorkflow_def initialState_def [symmetric])
     (simp add: initialState_def toolTurn_def lastAssistantContent_def)


text \<open>
  C6 (amended). When the service asks for a tool on every turn, so that the loop uses up
  \<open>maxIterations\<close>, \<open>executeAgenticWorkflow\<close> still returns normally, with
  \<open>iterations = maxIterations\<close>, and its \<open>finalResponse\<close> is the fixed string
  \<open>Workflow completed\<close>: the conversation then ends with the user turn that carries the
  tool results, and the code takes the last turn's content only when that turn is the
  assistant's.
\<close>

theorem workflow_exhausted_returns_completed:
  assumes "\<forall>h inp. requestsTool (bedrockSend e h inp)"
  shows "\<exists>res w'. executeAgenticWorkflow e p tls n w = (Inr res, w') \<and> iterations res = n \<and>
           finalResponse res = ''Workflow completed''"
  using workflow_always_tool [of e p tls n w] assms by blast

theorem workflow_exhausted_returns_completed_witness:
  "(\<forall>h inp. requestsTool (bedrockSend always_tool_env h inp)) \<and>
   (\<exists>res w'. executeAgenticWorkflow always_tool_env ''Diagnose checkout'' demo_tools 3 w0 = (Inr res, w') \<and>
      iterations res = 3 \<and> finalResponse res = ''Workflow completed'')"
  using workflow_exhausted_returns_completed [of always_tool_env "''Diagnose checkout''" demo_tools 3 w0]
        always_tool_env_requests
  by simp

lemma two_step_run:
  "agenticLoop two_step_env tls 10 (initialState p) w0 =
     (Inr (textTurn (toolTurn (initialState p) [config_tool_use]) ''Timeout is 3 seconds''),
      send (ConverseCommand (loopInput two_step_env tls (toolTurn (initialState p) [config_tool_use])))
        (send (ConverseCommand (loopInput two_step_env tls (initialState p))) w0))"
proof -
  let ?st0 = "initialState p"
  let ?w1 = "send (ConverseCommand (loopInput two_step_env tls ?st0)) w0"
  let ?st1 = "toolTurn ?st0 [config_tool_use]"
  have "agenticLoop two_step_env tls 10 ?st0 w0 = agenticLoop two_step_env tls 10 ?st1 ?w1"
    using two_step_env_first by (intro loop_tool_step) (simp_all add: initialState_def)
  moreover have "bedrockSend two_step_env (sent ?w1) (loopInput two_step_env tls ?st1)
                   = reply [textBlock ''Timeout is 3 seconds'']"
    by (simp add: two_step_env_def send_def)
  then have "agenticLoop two_step_env tls 10 ?st1 ?w1 =
      (Inr (textTurn ?st1 (extractTextFromResponse
              \<lparr>output = Some \<lparr>message_out = Some \<lparr>role_sdk = assistant,
                   content_sdk = Some [textBlock ''Timeout is 3 seconds'']\<rparr>\<rparr>\<rparr>)),
       send (ConverseCommand (loopInput two_step_env tls ?st1)) ?w1)"
    by (intro loop_text_step)
       (simp_all add: reply_def requestedTools_def collect_textBlock toolTurn_def initialState_def)
  ultimately show ?thesis
    by (simp add: extractTextFromResponse_def extractTextFromContent_def textBlock_def has_text_def)
qed

lemma registered_tool_run:
  "\<exists>tool \<in> set (initializeTools two_step_env).
     name_tool tool = ''get_lambda_config'' \<and>
     execute tool (JObj [(''functionName'', JStr ''checkout'')]) w0 =
       (Inr (function_config \<lparr>Timeout = Some 3, MemorySize = Some 128, Environment = None\<rparr>),
        \<lparr>sent = [GetFunctionConfigurationCommand (JStr ''checkout'')], uuids = 0\<rparr>)"
  by (simp add: initializeTools_def await_def resolve_def getFunctionConfig_def send_def w0_def
        two_step_env_def demo_env_def)

text \<open>
  C5. The loop does not look up or run any tool. At the input below the service asks for
  \<open>get_lambda_config\<close> on \<open>checkout\<close>, a tool the agent registers and lists in the
  catalog. Run on that input, the registered tool reads the function's configuration
  (timeout 3, memory 128) through a \<open>GetFunctionConfigurationCommand\<close>. The loop instead
  records and feeds back the fixed object
  \<open>{success: true, data: "Executed get_lambda_config"}\<close>, tagged with the invocation
  identifier, and the only commands it sends are its two requests to the reasoning
  service.
\<close>

theorem workflow_tool_result_is_mock:
  "(\<exists>c1 c2.
     executeAgenticWorkflow two_step_env ''Diagnose checkout'' (getToolConfiguration two_step_env) 10 w0 =
       (Inr \<lparr>finalResponse = ''Timeout is 3 seconds'',
             toolCalls = [\<lparr>tool = ''get_lambda_config'',
                           input_call = JObj [(''functionName'', JStr ''checkout'')],
                           output_call = JObj [(''success'', JBool True),
                                               (''data'', JStr ''Executed get_lambda_config'')]\<rparr>],
             iterations = 2\<rparr>,
        \<lparr>sent = [ConverseCommand c1, ConverseCommand c2], uuids = 0\<rparr>) \<and>
     last (messages_in c2) =
       \<lparr>role_sdk = user,
        content_sdk = Some
          [\<lparr>text = None, toolUse = None,
            toolResult = Some \<lparr>toolUseId_trb = ''tool-1'',
                               json_trb = JObj [(''success'', JBool True),
                                                (''data'', JStr ''Executed get_lambda_config'')],
                               status_trb = status_success\<rparr>\<rparr>]\<rparr>)
   \<and> (\<exists>tool \<in> set (initializeTools two_step_env).
        name_tool tool = ''get_lambda_config'' \<and>
        execute tool (JObj [(''functionName'', JStr ''checkout'')]) w0 =
          (Inr (function_config \<lparr>Timeout = Some 3, MemorySize = Some 128, Environment = None\<rparr>),
           \<lparr>sent = [GetFunctionConfigurationCommand (JStr ''checkout'')], uuids = 0\<rparr>))"
proof -
  let ?p = "''Diagnose checkout''"
  let ?tls = "getToolConfiguration two_step_env"
  let ?c1 = "loopInput two_step_env ?tls (initialState ?p)"
  let ?c2 = "loopInput two_step_env ?tls (toolTurn (initialState ?p) [config_tool_use])"
  have run: "executeAgenticWorkflow two_step_env ?p ?tls 10 w0 =
       (Inr \<lparr>finalResponse = ''Timeout is 3 seconds'',
             toolCalls = [\<lparr>tool = ''get_lambda_config'',
                           input_call = JObj [(''functionName'', JStr ''checkout'')],
                           output_call = JObj [(''success'', JBool True),
                                               (''data'', JStr ''Executed get_lambda_config'')]\<rparr>],
             iterations = 2\<rparr>,
        \<lparr>sent = [ConverseCommand ?c1, ConverseCommand ?c2], uuids = 0\<rparr>)"
    by (subst workflow_of_loop [OF two_step_run])
       (simp add: initialState_def textTurn_def toolTurn_def send_def w0_def config_tool_use_def
          mockOutput_def)
  have fed: "last (messages_in ?c2) =
       \<lparr>role_sdk = user,
        content_sdk = Some
          [\<lparr>text = None, toolUse = None,
            toolResult = Some \<lparr>toolUseId_trb = ''tool-1'',
                               json_trb = JObj [(''success'', JBool True),
                                                (''data'', JStr ''Executed get_lambda_config'')],
                               status_trb = status_success\<rparr>\<rparr>]\<rparr>"
    by (simp add: loopInput_def converseInput_def formatMessages_def toolTurn_def initialState_def
          config_tool_use_def mockOutput_def)
  from run fed registered_tool_run show ?thesis by blast
qed

subsection \<open>Planner and safety gate\<close>

lemma parse_length:
  "1 \<le> length (fst (parseRemediationActions e planText incident w)) \<and>
   length (fst (parseRemediationActions e planText incident w)) \<le> 2"
  by (simp add: parseRemediationActions_def Let_def uuidv4_def split: prod.splits)

lemma checks_passed:
  "map passed (performSafetyChecks e acts incident) = [length acts \<le> 5, True, True]"
  by (simp add: performSafetyChecks_def)

lemma checks_types:
  "map type_chk (performSafetyChecks e acts incident) = [rate_limit, rollback_available, resource_limit]"
  by (simp add: performSafetyChecks_def)

lemma plan_shape:
  assumes "generateRemediationPlan e incident diag w = (Inr pl, w')"
  shows "\<exists>planText w1. actions pl = fst (parseRemediationActions e planText incident w1) \<and>
           safetyChecks pl = performSafetyChecks e (actions pl) incident \<and>
           approvalRequired pl = list_ex (\<lambda>check. \<not> passed check) (safetyChecks pl)"
  using assms
  by (auto simp: generateRemediationPlan_def await_def try_catch_def resolve_def Let_def
           split: prod.splits sum.splits option.splits)
     (metis fst_conv)+

lemma demo_plan_returns:
  "\<exists>pl w'. generateRemediationPlan demo_env demo_incident demo_diagnosis w0 = (Inr pl, w')"
  by (simp add: generateRemediationPlan_def await_def try_catch_def resolve_def Let_def
        bedrock_generateRemediationPlan_def converse_def demo_env_def reply_def
        split: prod.splits sum.splits option.splits)

text \<open>
  C1. Whenever the planner returns a plan, the plan's \<open>approvalRequired\<close> flag is true if
  and only if at least one of its safety checks has \<open>passed = false\<close>.
\<close>

theorem plan_approval_iff_failed_check:
  assumes "generateRemediationPlan e incident diag w = (Inr pl, w')"
  shows "approvalRequired pl = (\<exists>check \<in> set (safetyChecks pl). passed check = False)"
  using plan_shape [OF assms] by (auto simp: list_ex_iff)

theorem plan_approval_iff_failed_check_witness:
  "\<exists>pl w'. generateRemediationPlan demo_env demo_incident demo_diagnosis w0 = (Inr pl, w') \<and>
     approvalRequired pl = (\<exists>check \<in> set (safetyChecks pl). passed check = False)"
  using demo_plan_returns plan_approval_iff_failed_check [of demo_env demo_incident demo_diagnosis w0]
  by blast

text \<open>
  C10. Every plan the planner returns has \<open>approvalRequired = false\<close>: the classifier
  yields one or two actions, so the \<open>rate_limit\<close> check (at most 5 actions) passes, and
  the \<open>rollback_available\<close> and \<open>resource_limit\<close> checks are marked passed whatever the
  actions are.
\<close>

theorem generated_plan_never_needs_approval:
  assumes "generateRemediationPlan e incident diag w = (Inr pl, w')"
  shows "approvalRequired pl = False \<and>
         1 \<le> length (actions pl) \<and> length (actions pl) \<le> 2 \<and>
         map type_chk (safetyChecks pl) = [rate_limit, rollback_available, resource_limit] \<and>
         map passed (safetyChecks pl) = [True, True, True] \<and>
         (\<forall>acts. map passed (performSafetyChecks e acts incident) = [length acts \<le> 5, True, True])"
proof -
  obtain planText w1 where p:
    "actions pl = fst (parseRemediationActions e planText incident w1)"
    "safetyChecks pl = performSafetyChecks e (actions pl) incident"
    "approvalRequired pl = list_ex (\<lambda>check. \<not> passed check) (safetyChecks pl)"
    using plan_shape [OF assms] by blast
  have len: "1 \<le> length (actions pl)" "length (actions pl) \<le> 2"
    using parse_length [of e planText incident w1] p(1) by simp_all
  have passed: "map passed (safetyChecks pl) = [True, True, True]"
    using len p(2) by (simp add: checks_passed)
  have "approvalRequired pl = False"
    using p(2,3) len by (simp add: performSafetyChecks_def)
  then show ?thesis using len passed p(2) by (simp add: checks_passed checks_types)
qed

theorem generated_plan_never_needs_approval_witness:
  "\<exists>pl w'. generateRemediationPlan demo_env demo_incident demo_diagnosis w0 = (Inr pl, w') \<and>
     approvalRequired pl = False \<and>
     1 \<le> length (actions pl) \<and> length (actions pl) \<le> 2 \<and>
     map type_chk (safetyChecks pl) = [rate_limit, rollback_available, resource_limit] \<and>
     map passed (safetyChecks pl) = [True, True, True] \<and>
     (\<forall>acts. map passed (performSafetyChecks demo_env acts demo_incident) = [length acts \<le> 5, True, True])"
  using demo_plan_returns
    generated_plan_never_needs_approval [of demo_env demo_incident demo_diagnosis w0]
  by blast

subsection \<open>Execution sequencer\<close>

lemma auditActions_append: "auditActions (xs @ ys) = auditActions xs @ auditActions ys"
  by (induction xs rule: auditActions.induct) simp_all

lemma executeAction_sends:
  "\<exists>res cs. executeAction e act w = (Inr res, w\<lparr>sent := sent w @ cs\<rparr>) \<and>
            actionId res = id_act act \<and> auditActions cs = []"
proof (cases "type_act act")
  case update_config
  then show ?thesis
    by (cases "lambdaUpdateConfiguration e (sent w) (param act ''functionName'') (param act ''timeout'')
                 (param act ''memorySize'') None")
       (auto simp: executeAction_def try_catch_def await_def resolve_def updateFunctionConfig_def
          send_def intro!: exI [of _ "[UpdateFunctionConfigurationCommand (param act ''functionName'')
             (param act ''timeout'') (param act ''memorySize'') None]"])
next
  case restart_service
  show ?thesis
  proof (cases "lambdaGetConfiguration e (sent w) (param act ''functionName'')")
    case (Inl err)
    then show ?thesis using restart_service
      by (auto simp: executeAction_def try_catch_def await_def resolve_def getFunctionConfig_def
          send_def intro!: exI [of _ "[GetFunctionConfigurationCommand (param act ''functionName'')]"])
  next
    case (Inr config)
    let ?w1 = "send (GetFunctionConfigurationCommand (param act ''functionName'')) w"
    let ?vars = "assign (case Environment config of None \<Rightarrow> []
                   | Some en \<Rightarrow> (case Variables en of None \<Rightarrow> [] | Some vs \<Rightarrow> vs))
                   ''LAST_RESTART'' (isoNow e (sent ?w1))"
    show ?thesis using restart_service Inr
      by (cases "lambdaUpdateConfiguration e (sent ?w1) (param act ''functionName'') JUndefined JUndefined
                   (Some ?vars)")
         (auto simp: executeAction_def try_catch_def await_def resolve_def getFunctionConfig_def
            updateFunctionConfig_def send_def Let_def
            intro!: exI [of _ "[GetFunctionConfigurationCommand (param act ''functionName''),
               UpdateFunctionConfigurationCommand (param act ''functionName'') JUndefined JUndefined
                 (Some ?vars)]"])
  qed
qed (auto simp: executeAction_def try_catch_def await_def resolve_def intro!: exI [of _ "[]"])

lemma logActionExecution_sends:
  "logActionExecution e i actId res details w =
     ((case dynamoSend e (sent w) (actionAudit e w i actId res details) of
         Some err \<Rightarrow> Inl err | None \<Rightarrow> Inr ()),
      \<lparr>sent = sent w @ [actionAudit e w i actId res details], uuids = uuids w + 1\<rparr>)"
  by (simp add: logActionExecution_def logAudit_def await_def resolve_def dynamo_def uuidv4_def
        send_def Let_def actionAudit_def split: option.splits)

lemma auditActions_actionAudit:
  "auditActions (actionAudit e w i actId res details # cs) =
     (''action_executed_'' @ actId) # auditActions cs"
  by (simp add: actionAudit_def)

lemma executeActions_spec:
  assumes "executeActions e incident acts results w = (Inr out, w')"
  shows "\<exists>rs cs. out = results @ rs \<and> length rs \<le> length acts \<and>
           map actionId rs = map id_act (take (length rs) acts) \<and>
           list_all success (butlast rs) \<and>
           (length rs < length acts \<longrightarrow> rs \<noteq> [] \<and> \<not> success (last rs)) \<and>
           sent w' = sent w @ cs \<and>
           auditActions cs = map (\<lambda>a. ''action_executed_'' @ id_act a) (take (length rs) acts)"
  using assms
proof (induction acts arbitrary: results w)
  case Nil
  then show ?case by (simp add: resolve_def)
next
  case (Cons act rest)
  obtain res cs1 where ex: "executeAction e act w = (Inr res, w\<lparr>sent := sent w @ cs1\<rparr>)"
    "actionId res = id_act act" "auditActions cs1 = []"
    using executeAction_sends by blast
  let ?w1 = "w\<lparr>sent := sent w @ cs1\<rparr>"
  let ?c = "actionAudit e ?w1 (id_inc incident) (id_act act)
              (if success res then audit_success else audit_failure)
              (action_details (type_act act) (output_res res) (error_res res))"
  let ?w2 = "\<lparr>sent = sent ?w1 @ [?c], uuids = uuids ?w1 + 1\<rparr>"
  have log: "logActionExecution e (id_inc incident) (id_act act)
              (if success res then audit_success else audit_failure)
              (action_details (type_act act) (output_res res) (error_res res)) ?w1 =
             ((case dynamoSend e (sent ?w1) ?c of Some err \<Rightarrow> Inl err | None \<Rightarrow> Inr ()), ?w2)"
    by (rule logActionExecution_sends)
  have ok: "dynamoSend e (sent ?w1) ?c = None"
    using Cons.prems ex(1) log by (auto simp: await_def split: option.splits)
  show ?case
  proof (cases "success res")
    case False
    then have "out = results @ [res]" "w' = ?w2"
      using Cons.prems ex(1) log ok by (auto simp: await_def resolve_def)
    then show ?thesis
      using False ex(2,3)
      by (intro exI [of _ "[res]"] exI [of _ "cs1 @ [?c]"])
         (simp add: auditActions_append auditActions_actionAudit)
  next
    case True
    then have rec: "executeActions e incident rest (results @ [res]) ?w2 = (Inr out, w')"
      using Cons.prems ex(1) log ok by (auto simp: await_def resolve_def)
    from Cons.IH [OF rec] obtain rs cs where ih:
      "out = (results @ [res]) @ rs" "length rs \<le> length rest"
      "map actionId rs = map id_act (take (length rs) rest)"
      "list_all success (butlast rs)"
      "length rs < length rest \<longrightarrow> rs \<noteq> [] \<and> \<not> success (last rs)"
      "sent w' = sent ?w2 @ cs"
      "auditActions cs = map (\<lambda>a. ''action_executed_'' @ id_act a) (take (length rs) rest)"
      by blast
    show ?thesis
      using ih True ex(2,3)
      by (intro exI [of _ "res # rs"] exI [of _ "cs1 @ [?c] @ cs"])
         (auto simp: auditActions_append auditActions_actionAudit)
  qed
qed

lemma executeActions_returns:
  assumes "\<And>h c. dynamoSend e h c = None"
  shows "\<exists>out w'. executeActions e incident acts results w = (Inr out, w')"
proof (induction acts arbitrary: results w)
  case Nil
  then show ?case by (simp add: resolve_def)
next
  case (Cons act rest)
  obtain res cs1 where ex: "executeAction e act w = (Inr res, w\<lparr>sent := sent w @ cs1\<rparr>)"
    using executeAction_sends by blast
  show ?case
    using ex Cons.IH assms
    by (cases "success res")
       (simp_all add: await_def resolve_def logActionExecution_sends)
qed

lemma sort_abc: "sort_key order [action_A, action_B, action_C] = [action_A, action_B, action_C]"
  by (simp add: action_A_def action_B_def action_C_def)

lemma abc_run:
  "executeRemediation abc_env demo_incident abc_plan w0 = (Inr abc_results, abc_world)"
  unfolding executeRemediation_def abc_plan_def abc_results_def abc_world_def
  apply (simp add: sort_abc)
  apply (simp add: action_A_def action_B_def action_C_def await_def resolve_def try_catch_def
      executeAction_def updateFunctionConfig_def param_def abc_env_def demo_env_def send_def w0_def
      logActionExecution_def logAudit_def uuidv4_def dynamo_def demo_incident_def Let_def)
  done

lemma executeActions_prefix:
  assumes "executeActions e incident acts results w = (Inr out, w')"
  shows "\<exists>rs. out = results @ rs \<and> length rs \<le> length acts \<and>
           attemptAll e incident (take (length rs) acts) w = (Inr rs, w')"
  using assms
proof (induction acts arbitrary: results w)
  case Nil
  then show ?case by (simp add: resolve_def)
next
  case (Cons act rest)
  obtain res cs1 where ex: "executeAction e act w = (Inr res, w\<lparr>sent := sent w @ cs1\<rparr>)"
    using executeAction_sends by blast
  let ?w1 = "w\<lparr>sent := sent w @ cs1\<rparr>"
  let ?c = "actionAudit e ?w1 (id_inc incident) (id_act act)
              (if success res then audit_success else audit_failure)
              (action_details (type_act act) (output_res res) (error_res res))"
  let ?w2 = "\<lparr>sent = sent ?w1 @ [?c], uuids = uuids ?w1 + 1\<rparr>"
  have log: "logActionExecution e (id_inc incident) (id_act act)
              (if success res then audit_success else audit_failure)
              (action_details (type_act act) (output_res res) (error_res res)) ?w1 =
             ((case dynamoSend e (sent ?w1) ?c of Some err \<Rightarrow> Inl err | None \<Rightarrow> Inr ()), ?w2)"
    by (rule logActionExecution_sends)
  have ok: "dynamoSend e (sent ?w1) ?c = None"
    using Cons.prems ex log by (auto simp: await_def split: option.splits)
  show ?case
  proof (cases "success res")
    case False
    then have "out = results @ [res]" "w' = ?w2"
      using Cons.prems ex log ok by (auto simp: await_def resolve_def)
    then show ?thesis
      using False ex log ok
      by (intro exI [of _ "[res]"]) (simp add: await_def resolve_def)
  next
    case True
    then have rec: "executeActions e incident rest (results @ [res]) ?w2 = (Inr out, w')"
      using Cons.prems ex log ok by (auto simp: await_def resolve_def)
    from Cons.IH [OF rec] obtain rs where ih:
      "out = (results @ [res]) @ rs" "length rs \<le> length rest"
      "attemptAll e incident (take (length rs) rest) ?w2 = (Inr rs, w')"
      by blast
    show ?thesis
      using ih True ex log ok
      by (intro exI [of _ "res # rs"]) (simp add: await_def resolve_def)
  qed
qed

lemma executeRemediation_spec:
  assumes "\<not> approvalRequired pl" and "executeRemediation e incident pl w = (Inr results, w')"
  shows "length results \<le> length (actions pl) \<and>
      sorted (map order (sort_key order (actions pl))) \<and>
      map actionId results = map id_act (take (length results) (sort_key order (actions pl))) \<and>
      list_all success (butlast results) \<and>
      (length results < length (actions pl) \<longrightarrow> results \<noteq> [] \<and> \<not> success (last results)) \<and>
      auditActions (drop (length (sent w)) (sent w')) =
        map (\<lambda>a. ''action_executed_'' @ id_act a) (take (length results) (sort_key order (actions pl))) \<and>
      attemptAll e incident (take (length results) (sort_key order (actions pl))) w = (Inr results, w')"
proof -
  have run: "executeActions e incident (sort_key order (actions pl)) [] w = (Inr results, w')"
    using assms by (simp add: executeRemediation_def)
  from executeActions_spec [OF run] obtain rs cs where s:
    "results = [] @ rs" "length rs \<le> length (sort_key order (actions pl))"
    "map actionId rs = map id_act (take (length rs) (sort_key order (actions pl)))"
    "list_all success (butlast rs)"
    "length rs < length (sort_key order (actions pl)) \<longrightarrow> rs \<noteq> [] \<and> \<not> success (last rs)"
    "sent w' = sent w @ cs"
    "auditActions cs = map (\<lambda>a. ''action_executed_'' @ id_act a) (take (length rs) (sort_key order (actions pl)))"
    by blast
  from executeActions_prefix [OF run] obtain rs' where p:
    "results = [] @ rs'"
    "attemptAll e incident (take (length rs') (sort_key order (actions pl))) w = (Inr rs', w')"
    by blast
  from s p show ?thesis by simp
qed

text \<open>
  C2. For a plan with \<open>approvalRequired = true\<close>, \<open>executeRemediation\<close> returns the empty
  result list and leaves the world as it was: no command is sent to the resource
  controller and no audit entry is written.
\<close>

theorem approval_required_blocks_execution:
  assumes "approvalRequired pl"
  shows "executeRemediation e incident pl w = (Inr [], w)"
  using assms by (simp add: executeRemediation_def resolve_def)

theorem approval_required_blocks_execution_witness:
  "approvalRequired blocked_plan \<and> executeRemediation abc_env demo_incident blocked_plan w0 = (Inr [], w0)"
  using approval_required_blocks_execution [of blocked_plan abc_env demo_incident w0]
  by (simp add: blocked_plan_def)

text \<open>
  C3. For a plan that needs no approval, \<open>executeRemediation\<close> goes through the actions in
  ascending \<open>order\<close> and stops at the first one that fails. When it returns \<open>results\<close>:
  the results are those of a prefix of the sorted actions, one each and in that order;
  every result but the last is a success; if some action was left out, the last result is
  a failure; the audit entries written are those of that prefix, one per action; and the
  whole run, results and world, is the run of attempting exactly the actions of that
  prefix one after the other, so nothing is sent, drawn or recorded for an action after
  the first failure. It does return when the audit sink accepts every entry. For the
  actions A (order 1, succeeds), B (order 2, fails), C (order 3, would succeed) the results
  are A's success and B's failure, and the commands sent are A's update, A's audit entry,
  B's update and B's audit entry: no update is sent for C.
\<close>

theorem executeRemediation_stops_at_first_failure:
  "(\<not> approvalRequired pl \<and> executeRemediation e incident pl w = (Inr results, w') \<longrightarrow>
      length results \<le> length (actions pl) \<and>
      sorted (map order (sort_key order (actions pl))) \<and>
      map actionId results = map id_act (take (length results) (sort_key order (actions pl))) \<and>
      list_all success (butlast results) \<and>
      (length results < length (actions pl) \<longrightarrow> results \<noteq> [] \<and> \<not> success (last results)) \<and>
      auditActions (drop (length (sent w)) (sent w')) =
        map (\<lambda>a. ''action_executed_'' @ id_act a) (take (length results) (sort_key order (actions pl))) \<and>
      attemptAll e incident (take (length results) (sort_key order (actions pl))) w = (Inr results, w'))
   \<and> (\<not> approvalRequired pl \<and> (\<forall>h c. dynamoSend e h c = None) \<longrightarrow>
        (\<exists>results w'. executeRemediation e incident pl w = (Inr results, w')))
   \<and> executeRemediation abc_env demo_incident abc_plan w0 = (Inr abc_results, abc_world)"
proof (intro conjI impI)
  assume a: "\<not> approvalRequired pl \<and> executeRemediation e incident pl w = (Inr results, w')"
  note s = executeRemediation_spec [of pl e incident w results w']
  show "length results \<le> length (actions pl)" using a s by blast
  show "sorted (map order (sort_key order (actions pl)))" by simp
  show "map actionId results = map id_act (take (length results) (sort_key order (actions pl)))"
    using a s by blast
  show "list_all success (butlast results)" using a s by blast
  show "auditActions (drop (length (sent w)) (sent w')) =
        map (\<lambda>a. ''action_executed_'' @ id_act a) (take (length results) (sort_key order (actions pl)))"
    using a s by blast
  show "attemptAll e incident (take (length results) (sort_key order (actions pl))) w = (Inr results, w')"
    using a s by blast
  assume "length results < length (actions pl)"
  then show "results \<noteq> []" "\<not> success (last results)" using a s by blast+
next
  assume "\<not> approvalRequired pl \<and> (\<forall>h c. dynamoSend e h c = None)"
  then show "\<exists>results w'. executeRemediation e incident pl w = (Inr results, w')"
    using executeActions_returns [of e incident "sort_key order (actions pl)" "[]" w]
    by (simp add: executeRemediation_def)
next
  show "executeRemediation abc_env demo_incident abc_plan w0 = (Inr abc_results, abc_world)"
    by (rule abc_run)
qed

theorem executeRemediation_stops_at_first_failure_witness:
  "\<not> approvalRequired abc_plan \<and>
   executeRemediation abc_env demo_incident abc_plan w0 = (Inr abc_results, abc_world) \<and>
   length abc_results \<le> length (actions abc_plan) \<and>
   sorted (map order (sort_key order (actions abc_plan))) \<and>
   map actionId abc_results = map id_act (take (length abc_results) (sort_key order (actions abc_plan))) \<and>
   list_all success (butlast abc_results) \<and>
   length abc_results < length (actions abc_plan) \<and> abc_results \<noteq> [] \<and> \<not> success (last abc_results) \<and>
   auditActions (drop (length (sent w0)) (sent abc_world)) =
     map (\<lambda>a. ''action_executed_'' @ id_act a) (take (length abc_results) (sort_key order (actions abc_plan))) \<and>
   attemptAll abc_env demo_incident (take (length abc_results) (sort_key order (actions abc_plan))) w0 =
     (Inr abc_results, abc_world) \<and>
   (\<forall>h c. dynamoSend abc_env h c = None) \<and>
   (\<exists>results w'. executeRemediation abc_env demo_incident abc_plan w0 = (Inr results, w'))"
proof -
  have approved: "\<not> approvalRequired abc_plan" by (simp add: abc_plan_def)
  have healthy: "\<forall>h c. dynamoSend abc_env h c = None" by (simp add: abc_env_def demo_env_def)
  have short: "length abc_results < length (actions abc_plan)"
    by (simp add: abc_results_def abc_plan_def)
  show ?thesis
    using executeRemediation_stops_at_first_failure
            [of abc_plan abc_env demo_incident w0 abc_results abc_world]
          approved healthy short
    by blast
qed

subsection \<open>Incident pipeline\<close>

lemma statusWrites_append: "statusWrites i (xs @ ys) = statusWrites i xs @ statusWrites i ys"
  by (induction i xs rule: statusWrites.induct) simp_all










end
